theory Spec2Isabelle
  imports Complex_Main "HOL-Library.AList"
begin

text \<open>
  The BirdEye and DexScreener price clients (\<^verbatim>\<open>birdeye.py\<close>, \<^verbatim>\<open>dexscreener.py\<close>):
  validation of addresses, the HTTP calls, and the reshaping of the JSON payloads into
  prices, overviews and the pool of largest liquidity.
\<close>

section \<open>Python values\<close>

text \<open>
  The two clients reshape the value of \<^verbatim>\<open>response.json()\<close>, an arbitrary JSON document.
  A Python float is carried by the exact value of the double (or one of the three
  non-finite doubles), a \<^verbatim>\<open>Decimal\<close> by its exact value; a \<^verbatim>\<open>dict\<close> is an association
  list read with \<open>map_of\<close> and written with \<open>AList.update\<close>, which keeps the position
  of an existing key and appends a new one, as Python's insertion order does.
\<close>

datatype pyfloat = Fin rat | PosInf | NegInf | NaN

datatype decimal = DFin rat | DPosInf | DNegInf | DNaN

datatype json =
    JNull
  | JBool bool
  | JInt int
  | JFloat pyfloat
  | JStr string
  | JList "json list"
  | JObj "(string \<times> json) list"

text \<open>
  Exceptions. The three classes of \<^verbatim>\<open>custom_exceptions\<close> carry their constructor
  arguments; the built-in ones are told apart by class only.
\<close>

datatype pyerr =
    NoPositionsError "json list"
  | InvalidSolanaAddress "json list"
  | InvalidTokens "json list"
  | KeyError
  | TypeError
  | ValueError
  | AttributeError
  | UnboundLocalError
  | OverflowError
  | InvalidOperation

text \<open>
  What the code calls from outside the repository and the claims do not fix: the
  public-key parser of \<^verbatim>\<open>solders\<close>, the string and sequence forms of the \<^verbatim>\<open>Decimal\<close>
  constructor, the string forms of \<^verbatim>\<open>float\<close> and \<^verbatim>\<open>int\<close>, and \<^verbatim>\<open>str\<close> of an
  exception of \<^verbatim>\<open>custom_exceptions\<close>. Every operation takes them as a parameter.
\<close>

record pylib =
  pubkey_from_string :: "string \<Rightarrow> bool"
  decimal_of_str :: "string \<Rightarrow> decimal option"
  decimal_of_seq :: "json list \<Rightarrow> pyerr + decimal"
  float_of_str :: "string \<Rightarrow> pyfloat option"
  int_of_str :: "string \<Rightarrow> int option"
  exc_str :: "pyerr \<Rightarrow> string"

fun bind_err :: "pyerr + 'a \<Rightarrow> ('a \<Rightarrow> pyerr + 'b) \<Rightarrow> pyerr + 'b" where
  "bind_err (Inl e) f = Inl e"
| "bind_err (Inr v) f = f v"

text \<open>\<^verbatim>\<open>bool(x)\<close>, as \<^verbatim>\<open>if x:\<close> evaluates it.\<close>

fun truthy :: "json \<Rightarrow> bool" where
  "truthy JNull = False"
| "truthy (JBool b) = b"
| "truthy (JInt n) = (n \<noteq> 0)"
| "truthy (JFloat f) = (f \<noteq> Fin 0)"
| "truthy (JStr s) = (s \<noteq> [])"
| "truthy (JList xs) = (xs \<noteq> [])"
| "truthy (JObj kvs) = (kvs \<noteq> [])"

text \<open>\<^verbatim>\<open>x.get(k, dflt)\<close>: only a dict has the method.\<close>

fun py_get :: "json \<Rightarrow> string \<Rightarrow> json \<Rightarrow> pyerr + json" where
  "py_get (JObj kvs) k dflt = Inr (case map_of kvs k of None \<Rightarrow> dflt | Some v \<Rightarrow> v)"
| "py_get _ k dflt = Inl AttributeError"

text \<open>\<^verbatim>\<open>x[k]\<close> with a string \<open>k\<close>: a missing key raises, any other type rejects the index.\<close>

fun py_getitem :: "json \<Rightarrow> string \<Rightarrow> pyerr + json" where
  "py_getitem (JObj kvs) k = (case map_of kvs k of None \<Rightarrow> Inl KeyError | Some v \<Rightarrow> Inr v)"
| "py_getitem _ k = Inl TypeError"

fun is_substring :: "string \<Rightarrow> string \<Rightarrow> bool" where
  "is_substring k [] = (k = [])"
| "is_substring k (c # cs) = (take (length k) (c # cs) = k \<or> is_substring k cs)"

text \<open>\<^verbatim>\<open>k in x\<close> with a string \<open>k\<close>.\<close>

fun py_contains :: "string \<Rightarrow> json \<Rightarrow> pyerr + bool" where
  "py_contains k (JObj kvs) = Inr (map_of kvs k \<noteq> None)"
| "py_contains k (JList xs) = Inr (JStr k \<in> set xs)"
| "py_contains k (JStr s) = Inr (is_substring k s)"
| "py_contains k _ = Inl TypeError"

text \<open>\<^verbatim>\<open>for p in x\<close>: the elements of a list, the keys of a dict, the characters of a string.\<close>

fun py_iter :: "json \<Rightarrow> pyerr + json list" where
  "py_iter (JList xs) = Inr xs"
| "py_iter (JObj kvs) = Inr (map JStr (rev (remdups (rev (map fst kvs)))))"
| "py_iter (JStr s) = Inr (map (\<lambda>c. JStr [c]) s)"
| "py_iter _ = Inl TypeError"

subsection \<open>Numeric conversions\<close>

fun decimal_of_float :: "pyfloat \<Rightarrow> decimal" where
  "decimal_of_float (Fin r) = DFin r"
| "decimal_of_float PosInf = DPosInf"
| "decimal_of_float NegInf = DNegInf"
| "decimal_of_float NaN = DNaN"

text \<open>\<^verbatim>\<open>Decimal(x)\<close>: exact for an int, a bool and a float.\<close>

fun py_Decimal :: "pylib \<Rightarrow> json \<Rightarrow> pyerr + decimal" where
  "py_Decimal L (JStr s) =
     (case decimal_of_str L s of None \<Rightarrow> Inl InvalidOperation | Some d \<Rightarrow> Inr d)"
| "py_Decimal L (JInt n) = Inr (DFin (of_int n))"
| "py_Decimal L (JBool b) = Inr (DFin (if b then 1 else 0))"
| "py_Decimal L (JFloat f) = Inr (decimal_of_float f)"
| "py_Decimal L (JList xs) = decimal_of_seq L xs"
| "py_Decimal L JNull = Inl TypeError"
| "py_Decimal L (JObj kvs) = Inl TypeError"

fun bitlen :: "nat \<Rightarrow> nat" where
  "bitlen n = (if n = 0 then 0 else Suc (bitlen (n div 2)))"

declare bitlen.simps [simp del]

text \<open>
  An int becomes the nearest double, ties to the even 53-bit significand; the
  magnitudes that round to \<open>2 ^ 1024\<close> or more raise \<^verbatim>\<open>OverflowError\<close>.
\<close>

definition round_half_even_53 :: "nat \<Rightarrow> nat" where
  "round_half_even_53 n =
     (if n < 2 ^ 53 then n
      else let e = bitlen n - 53; q = n div 2 ^ e; r = n mod 2 ^ e; h = 2 ^ (e - 1)
           in if h < r \<or> (r = h \<and> odd q) then (q + 1) * 2 ^ e else q * 2 ^ e)"

definition float_of_int :: "int \<Rightarrow> pyerr + pyfloat" where
  "float_of_int n =
     (let m = round_half_even_53 (nat \<bar>n\<bar>)
      in if 2 ^ 1024 \<le> m then Inl OverflowError
         else Inr (Fin (of_int (if n < 0 then - int m else int m))))"

text \<open>\<^verbatim>\<open>float(x)\<close>.\<close>

fun py_float :: "pylib \<Rightarrow> json \<Rightarrow> pyerr + pyfloat" where
  "py_float L (JStr s) = (case float_of_str L s of None \<Rightarrow> Inl ValueError | Some f \<Rightarrow> Inr f)"
| "py_float L (JInt n) = float_of_int n"
| "py_float L (JBool b) = Inr (Fin (if b then 1 else 0))"
| "py_float L (JFloat f) = Inr f"
| "py_float L JNull = Inl TypeError"
| "py_float L (JList xs) = Inl TypeError"
| "py_float L (JObj kvs) = Inl TypeError"

text \<open>\<^verbatim>\<open>int(x)\<close>: a float is truncated towards zero.\<close>

fun py_int :: "pylib \<Rightarrow> json \<Rightarrow> pyerr + int" where
  "py_int L (JStr s) = (case int_of_str L s of None \<Rightarrow> Inl ValueError | Some n \<Rightarrow> Inr n)"
| "py_int L (JInt n) = Inr n"
| "py_int L (JBool b) = Inr (if b then 1 else 0)"
| "py_int L (JFloat (Fin r)) = Inr (if 0 \<le> r then \<lfloor>r\<rfloor> else \<lceil>r\<rceil>)"
| "py_int L (JFloat NaN) = Inl ValueError"
| "py_int L (JFloat PosInf) = Inl OverflowError"
| "py_int L (JFloat NegInf) = Inl OverflowError"
| "py_int L JNull = Inl TypeError"
| "py_int L (JList xs) = Inl TypeError"
| "py_int L (JObj kvs) = Inl TypeError"

text \<open>\<^verbatim>\<open>a > b\<close> on floats: false as soon as one side is NaN.\<close>

fun float_gt :: "pyfloat \<Rightarrow> pyfloat \<Rightarrow> bool" where
  "float_gt NaN _ = False"
| "float_gt _ NaN = False"
| "float_gt (Fin a) (Fin b) = (b < a)"
| "float_gt PosInf PosInf = False"
| "float_gt PosInf _ = True"
| "float_gt NegInf _ = False"
| "float_gt (Fin a) NegInf = True"
| "float_gt (Fin a) PosInf = False"

subsection \<open>Strings\<close>

definition upper_char :: "char \<Rightarrow> char" where
  "upper_char c =
     (let n = (of_char c :: nat) in if 97 \<le> n \<and> n \<le> 122 then char_of (n - 32) else c)"

definition upper :: "string \<Rightarrow> string" where
  "upper s = map upper_char s"

fun join :: "string \<Rightarrow> string list \<Rightarrow> string" where
  "join sep [] = []"
| "join sep [x] = x"
| "join sep (x # y # ys) = x @ sep @ join sep (y # ys)"

section \<open>The HTTP transport\<close>

text \<open>
  The transport is outside the repository: a function from the request to the response,
  of which the code reads the status code and the decoded body. Every operation returns
  the list of the requests it has issued, in order, next to its outcome. A transport that
  itself raises (no connection, a body that is not JSON) is not modelled.
\<close>

record request =
  req_method :: string
  req_url :: string
  req_headers :: "(string \<times> string) list"

record response =
  status_code :: int
  json_body :: json

type_synonym http = "request \<Rightarrow> response"

type_synonym 'a io = "request list \<times> (pyerr + 'a)"

section \<open>The address validator\<close>

text \<open>
  \<^verbatim>\<open>is_solana_address\<close> of \<^verbatim>\<open>birdeye.py\<close>: true when the parser returns, false when it
  raises. \<^verbatim>\<open>dexscreener.py\<close> imports the function of this name from \<^verbatim>\<open>utils.helpers\<close>,
  which is not among the sources; it is taken to be this one.
\<close>

definition is_solana_address :: "pylib \<Rightarrow> string \<Rightarrow> bool" where
  "is_solana_address L input_string = (if pubkey_from_string L input_string then True else False)"

section \<open>BirdEyeClient\<close>

record config =
  BASE_URL :: string
  BIRDEYE_API_KEY :: string

record PriceInfo =
  price :: decimal
  liquidity :: decimal

definition headers :: "config \<Rightarrow> (string \<times> string) list" where
  "headers cfg =
     [(''accept'', ''application/json''), (''x-chain'', ''solana''),
      (''X-API-KEY'', BIRDEYE_API_KEY cfg)]"

definition bird_request :: "config \<Rightarrow> string \<Rightarrow> string \<Rightarrow> request" where
  "bird_request cfg method query_url =
     \<lparr>req_method = method, req_url = query_url, req_headers = headers cfg\<rparr>"

definition make_api_call :: "config \<Rightarrow> http \<Rightarrow> string \<Rightarrow> string \<Rightarrow> response io" where
  "make_api_call cfg net method query_url =
     (if upper method = ''GET''
      then ([bird_request cfg ''GET'' query_url], Inr (net (bird_request cfg ''GET'' query_url)))
      else if upper method = ''POST''
      then ([bird_request cfg ''POST'' query_url], Inr (net (bird_request cfg ''POST'' query_url)))
      else ([], Inl ValueError))"

text \<open>The body of the loop of \<^verbatim>\<open>fetch_prices\<close> over \<^verbatim>\<open>token_addresses\<close>.\<close>

definition price_of_token :: "pylib \<Rightarrow> json \<Rightarrow> string \<Rightarrow> pyerr + PriceInfo" where
  "price_of_token L data token =
     bind_err (py_getitem data ''data'') (\<lambda>d.
     bind_err (py_get d token JNull) (\<lambda>token_data.
       if truthy token_data then
         bind_err (py_getitem token_data ''value'') (\<lambda>v.
         bind_err (py_Decimal L v) (\<lambda>p.
         bind_err (py_getitem token_data ''priceChange24h'') (\<lambda>c.
         bind_err (py_Decimal L c) (\<lambda>l.
           Inr \<lparr>price = p, liquidity = l\<rparr>))))
       else Inr \<lparr>price = DFin 0, liquidity = DFin 0\<rparr>))"

fun prices_loop ::
  "pylib \<Rightarrow> json \<Rightarrow> string list \<Rightarrow> (string \<times> PriceInfo) list \<Rightarrow> pyerr + (string \<times> PriceInfo) list"
where
  "prices_loop L data [] prices = Inr prices"
| "prices_loop L data (token # rest) prices =
     (case price_of_token L data token of
        Inl e \<Rightarrow> Inl e
      | Inr info \<Rightarrow> prices_loop L data rest (AList.update token info prices))"

text \<open>
  \<^verbatim>\<open>fetch_prices\<close> ends with \<^verbatim>\<open>print(prices)\<close> and has no \<^verbatim>\<open>return\<close>: its outcome
  is what it wrote to the standard output and the value it returned, which is Python's
  \<^verbatim>\<open>None\<close>.
\<close>

record fetch_prices_outcome =
  printed :: "(string \<times> PriceInfo) list list"
  returned :: "(string \<times> PriceInfo) list option"

definition multi_price_url :: "config \<Rightarrow> string list \<Rightarrow> string" where
  "multi_price_url cfg token_addresses =
     (let addresses = join '','' token_addresses
      in BASE_URL cfg @ ''/defi/multi_price?list_address='' @ addresses)"

definition fetch_prices :: "config \<Rightarrow> pylib \<Rightarrow> http \<Rightarrow> string list \<Rightarrow> fetch_prices_outcome io" where
  "fetch_prices cfg L net token_addresses =
     (if token_addresses = [] then ([], Inl (NoPositionsError [JStr ''No tokens provided'']))
      else
        case make_api_call cfg net ''GET'' (multi_price_url cfg token_addresses) of
          (sent, r) \<Rightarrow>
            (sent,
             bind_err r (\<lambda>response.
               if status_code response \<noteq> 200
               then Inl (InvalidTokens [JStr ''API call was unsuccessful''])
               else bind_err (prices_loop L (json_body response) token_addresses []) (\<lambda>prices.
                      Inr \<lparr>printed = [prices], returned = None\<rparr>))))"

record TokenOverview =
  ov_price :: decimal
  ov_symbol :: json
  ov_decimals :: int
  ov_lastTradeUnixTime :: int
  ov_liquidity :: decimal
  ov_supply :: decimal

definition token_overview_of :: "pylib \<Rightarrow> json \<Rightarrow> pyerr + TokenOverview" where
  "token_overview_of L data =
     bind_err (py_get data ''data'' JNull) (\<lambda>token.
     bind_err (py_get token ''price'' (JInt 0)) (\<lambda>p. bind_err (py_Decimal L p) (\<lambda>price'.
     bind_err (py_get token ''symbol'' (JStr [])) (\<lambda>symbol.
     bind_err (py_get token ''decimals'' (JInt 0)) (\<lambda>d. bind_err (py_int L d) (\<lambda>decimals.
     bind_err (py_get token ''lastTradeUnixTime'' (JInt 0)) (\<lambda>t. bind_err (py_int L t) (\<lambda>last.
     bind_err (py_get token ''liquidity'' (JInt 0)) (\<lambda>l. bind_err (py_Decimal L l) (\<lambda>liquidity'.
     bind_err (py_get token ''supply'' (JInt 0)) (\<lambda>s. bind_err (py_Decimal L s) (\<lambda>supply.
       Inr \<lparr>ov_price = price', ov_symbol = symbol, ov_decimals = decimals,
            ov_lastTradeUnixTime = last, ov_liquidity = liquidity', ov_supply = supply\<rparr>
     ))))))))))))"

definition token_overview_url :: "string \<Rightarrow> string" where
  "token_overview_url address = ''https://public-api.birdeye.so/defi/token_overview?address='' @ address"

definition bird_fetch_token_overview ::
  "config \<Rightarrow> pylib \<Rightarrow> http \<Rightarrow> string \<Rightarrow> TokenOverview io"
where
  "bird_fetch_token_overview cfg L net address =
     (if \<not> is_solana_address L address then ([], Inl (InvalidSolanaAddress [JStr address]))
      else
        case make_api_call cfg net ''GET'' (token_overview_url address) of
          (sent, r) \<Rightarrow>
            (sent,
             bind_err r (\<lambda>response.
               if status_code response = 401
               then Inl (InvalidTokens
                      [JObj [(''CODE'', JInt 401), (''message'', JStr ''Token is not Authorized'')]])
               else if status_code response \<noteq> 200
               then Inl (InvalidTokens [JStr ''API call was unsuccessful''])
               else token_overview_of L (json_body response))))"

section \<open>DexScreenerClient\<close>

text \<open>
  \<^verbatim>\<open>_validate_token_address\<close>: the two checks sit in a \<^verbatim>\<open>try\<close> whose handler catches
  every \<^verbatim>\<open>Exception\<close> and raises \<^verbatim>\<open>InvalidSolanaAddress(token_address)\<close> in its place.
  The classes of \<^verbatim>\<open>custom_exceptions\<close> are taken to be unrelated subclasses of
  \<^verbatim>\<open>Exception\<close>.
\<close>

definition validate_token_address_try :: "pylib \<Rightarrow> string \<Rightarrow> pyerr + unit" where
  "validate_token_address_try L token_address =
     (if token_address = [] then Inl (NoPositionsError [])
      else if \<not> is_solana_address L token_address
      then Inl (InvalidSolanaAddress [JStr token_address])
      else Inr ())"

definition validate_token_address :: "pylib \<Rightarrow> string \<Rightarrow> pyerr + unit" where
  "validate_token_address L token_address =
     (case validate_token_address_try L token_address of
        Inl e \<Rightarrow> Inl (InvalidSolanaAddress [JStr token_address])
      | Inr u \<Rightarrow> Inr u)"

fun validate_each :: "pylib \<Rightarrow> string list \<Rightarrow> pyerr + unit" where
  "validate_each L [] = Inr ()"
| "validate_each L (address # rest) =
     (case validate_token_address L address of
        Inl e \<Rightarrow> Inl e
      | Inr u \<Rightarrow> validate_each L rest)"

definition validate_token_addresses :: "pylib \<Rightarrow> string list \<Rightarrow> pyerr + unit" where
  "validate_token_addresses L token_addresses =
     (if token_addresses = []
      then Inl (NoPositionsError [JStr ''Token addresses list is empty''])
      else validate_each L token_addresses)"

definition validate_response :: "response \<Rightarrow> pyerr + unit" where
  "validate_response resp = (if status_code resp \<noteq> 200 then Inl (InvalidTokens []) else Inr ())"

definition dex_request :: "string \<Rightarrow> request" where
  "dex_request token_address =
     \<lparr>req_method = ''GET'',
      req_url = ''https://api.dexscreener.com/latest/dex/tokens/'' @ token_address,
      req_headers = []\<rparr>"

definition call_api :: "pylib \<Rightarrow> http \<Rightarrow> string \<Rightarrow> json io" where
  "call_api L net token_address =
     (case validate_token_address L token_address of
        Inl e \<Rightarrow> ([], Inl e)
      | Inr u \<Rightarrow>
          let response = net (dex_request token_address)
          in ([dex_request token_address],
              bind_err (validate_response response) (\<lambda>u. Inr (json_body response))))"

text \<open>
  \<^verbatim>\<open>_call_api_bulk\<close>: the \<^verbatim>\<open>try\<close> block of one address, the handler that stores the
  error marker for the two classes it names, and the loop.
\<close>

definition bulk_try :: "pylib \<Rightarrow> http \<Rightarrow> string \<Rightarrow> json io" where
  "bulk_try L net address =
     (case validate_token_address L address of
        Inl e \<Rightarrow> ([], Inl e)
      | Inr u \<Rightarrow>
          let response = net (dex_request address)
          in ([dex_request address],
              bind_err (validate_response response) (\<lambda>u. Inr (json_body response))))"

fun caught_bulk :: "pyerr \<Rightarrow> bool" where
  "caught_bulk (InvalidSolanaAddress args) = True"
| "caught_bulk (InvalidTokens args) = True"
| "caught_bulk _ = False"

definition error_marker :: "pylib \<Rightarrow> pyerr \<Rightarrow> json" where
  "error_marker L e = JObj [(''error'', JStr (exc_str L e))]"

fun call_api_bulk_loop ::
  "pylib \<Rightarrow> http \<Rightarrow> string list \<Rightarrow> (string \<times> json) list \<Rightarrow> request list
     \<Rightarrow> (string \<times> json) list io"
where
  "call_api_bulk_loop L net [] responses sent = (sent, Inr responses)"
| "call_api_bulk_loop L net (address # rest) responses sent =
     (case bulk_try L net address of
        (rqs, Inr v) \<Rightarrow>
          call_api_bulk_loop L net rest (AList.update address v responses) (sent @ rqs)
      | (rqs, Inl e) \<Rightarrow>
          if caught_bulk e
          then call_api_bulk_loop L net rest
                 (AList.update address (error_marker L e) responses) (sent @ rqs)
          else (sent @ rqs, Inl e))"

definition call_api_bulk :: "pylib \<Rightarrow> http \<Rightarrow> string list \<Rightarrow> (string \<times> json) list io" where
  "call_api_bulk L net token_addresses =
     (if token_addresses = []
      then ([], Inl (NoPositionsError [JStr ''Token addresses list is empty'']))
      else call_api_bulk_loop L net token_addresses [] [])"

subsection \<open>The nested result dictionaries\<close>

text \<open>
  The keys of the inner dictionaries are whatever the payload holds under \<^verbatim>\<open>dexId\<close> and
  \<^verbatim>\<open>symbol\<close>. A list or a dict is unhashable; \<^verbatim>\<open>True\<close>, \<^verbatim>\<open>1\<close> and \<^verbatim>\<open>1.0\<close> are one key.
\<close>

datatype pykey = KNone | KNum rat | KStr string | KPosInf | KNegInf | KNaN

fun key_of :: "json \<Rightarrow> pyerr + pykey" where
  "key_of JNull = Inr KNone"
| "key_of (JBool b) = Inr (KNum (if b then 1 else 0))"
| "key_of (JInt n) = Inr (KNum (of_int n))"
| "key_of (JFloat (Fin r)) = Inr (KNum r)"
| "key_of (JFloat PosInf) = Inr KPosInf"
| "key_of (JFloat NegInf) = Inr KNegInf"
| "key_of (JFloat NaN) = Inr KNaN"
| "key_of (JStr s) = Inr (KStr s)"
| "key_of (JList xs) = Inl TypeError"
| "key_of (JObj kvs) = Inl TypeError"

type_synonym 'v venues = "(pykey \<times> (pykey \<times> 'v) list) list"

text \<open>\<^verbatim>\<open>d[address][dex_id] = {}\<close>\<close>

definition set_venue ::
  "string \<Rightarrow> json \<Rightarrow> (string \<times> 'v venues) list \<Rightarrow> pyerr + (string \<times> 'v venues) list"
where
  "set_venue address dex_id d =
     (case map_of d address of
        None \<Rightarrow> Inl KeyError
      | Some vs \<Rightarrow>
          bind_err (key_of dex_id) (\<lambda>k. Inr (AList.update address (AList.update k [] vs) d)))"

text \<open>\<^verbatim>\<open>d[address][dex_id][symbol] = v\<close>\<close>

definition set_symbol ::
  "string \<Rightarrow> json \<Rightarrow> json \<Rightarrow> 'v \<Rightarrow> (string \<times> 'v venues) list
     \<Rightarrow> pyerr + (string \<times> 'v venues) list"
where
  "set_symbol address dex_id symbol v d =
     (case map_of d address of
        None \<Rightarrow> Inl KeyError
      | Some vs \<Rightarrow>
          bind_err (key_of dex_id) (\<lambda>k.
            case map_of vs k of
              None \<Rightarrow> Inl KeyError
            | Some syms \<Rightarrow>
                bind_err (key_of symbol) (\<lambda>ks.
                  Inr (AList.update address (AList.update k (AList.update ks v syms) vs) d))))"

text \<open>\<^verbatim>\<open>del d[address][dex_id]\<close>\<close>

definition del_venue ::
  "string \<Rightarrow> json \<Rightarrow> (string \<times> 'v venues) list \<Rightarrow> pyerr + (string \<times> 'v venues) list"
where
  "del_venue address dex_id d =
     (case map_of d address of
        None \<Rightarrow> Inl KeyError
      | Some vs \<Rightarrow>
          bind_err (key_of dex_id) (\<lambda>k.
            if map_of vs k = None then Inl KeyError
            else Inr (AList.update address (AList.delete k vs) d)))"

text \<open>
  The state of the two normalisation loops: the result dictionary and the local variable
  \<^verbatim>\<open>dex_id\<close>, which is unbound (\<open>None\<close>) until the first assignment and keeps its value
  from one pair, and one address, to the next. A block returns the state it has reached
  and the exception it raised, if any.
\<close>

type_synonym 'v loop_state = "(string \<times> 'v venues) list \<times> json option"

fun caught_parse :: "pyerr \<Rightarrow> bool" where
  "caught_parse ValueError = True"
| "caught_parse TypeError = True"
| "caught_parse _ = False"

text \<open>The handler \<^verbatim>\<open>if dex_id: del d[address][dex_id]\<close> of both loops.\<close>

definition drop_venue :: "string \<Rightarrow> 'v loop_state \<Rightarrow> 'v loop_state \<times> pyerr option" where
  "drop_venue address st =
     (case snd st of
        None \<Rightarrow> (st, Some UnboundLocalError)
      | Some dex_id \<Rightarrow>
          if truthy dex_id then
            (case del_venue address dex_id (fst st) of
               Inl e \<Rightarrow> (st, Some e)
             | Inr d \<Rightarrow> ((d, snd st), None))
          else (st, None))"

fun pairs_loop ::
  "(json \<Rightarrow> 'v loop_state \<Rightarrow> 'v loop_state \<times> pyerr option) \<Rightarrow> json list \<Rightarrow> 'v loop_state
     \<Rightarrow> 'v loop_state \<times> pyerr option"
where
  "pairs_loop step [] st = (st, None)"
| "pairs_loop step (pair # rest) st =
     (case step pair st of
        (st', None) \<Rightarrow> pairs_loop step rest st'
      | (st', Some e) \<Rightarrow> (st', Some e))"

subsection \<open>fetch_prices_dex\<close>

text \<open>
  Modelled from the spec: \<^verbatim>\<open>clients.common.PriceInfo\<close> is not among the sources; it is
  the immutable pair of the spec, with the field names of the call
  \<^verbatim>\<open>PriceInfo(value=price, liquidity=liquidity)\<close>.
\<close>

record DexPriceInfo =
  pi_value :: decimal
  pi_liquidity :: decimal

definition price_pair_try ::
  "pylib \<Rightarrow> string \<Rightarrow> json \<Rightarrow> DexPriceInfo loop_state \<Rightarrow> DexPriceInfo loop_state \<times> pyerr option"
where
  "price_pair_try L address pair st =
     (case bind_err (py_get pair ''priceUsd'' (JFloat (Fin 0))) (py_Decimal L) of
        Inl e \<Rightarrow> (st, Some e)
      | Inr price' \<Rightarrow>
     (case bind_err (py_get pair ''liquidity'' (JObj [])) (\<lambda>l.
           bind_err (py_get l ''usd'' (JFloat (Fin 0))) (py_Decimal L)) of
        Inl e \<Rightarrow> (st, Some e)
      | Inr liquidity' \<Rightarrow>
     (case py_get pair ''dexId'' JNull of
        Inl e \<Rightarrow> (st, Some e)
      | Inr dex_id \<Rightarrow>
     (case set_venue address dex_id (fst st) of
        Inl e \<Rightarrow> ((fst st, Some dex_id), Some e)
      | Inr d1 \<Rightarrow>
     (case bind_err (py_get pair ''baseToken'' (JObj [])) (\<lambda>b. py_get b ''symbol'' JNull) of
        Inl e \<Rightarrow> ((d1, Some dex_id), Some e)
      | Inr symbol \<Rightarrow>
     (case set_symbol address dex_id symbol
             \<lparr>pi_value = price', pi_liquidity = liquidity'\<rparr> d1 of
        Inl e \<Rightarrow> ((d1, Some dex_id), Some e)
      | Inr d2 \<Rightarrow> ((d2, Some dex_id), None)))))))"

definition price_pair_step ::
  "pylib \<Rightarrow> string \<Rightarrow> json \<Rightarrow> DexPriceInfo loop_state \<Rightarrow> DexPriceInfo loop_state \<times> pyerr option"
where
  "price_pair_step L address pair st =
     (case price_pair_try L address pair st of
        (st', None) \<Rightarrow> (st', None)
      | (st', Some e) \<Rightarrow> if caught_parse e then drop_venue address st' else (st', Some e))"

definition token_try ::
  "pylib \<Rightarrow> string \<Rightarrow> json \<Rightarrow> DexPriceInfo loop_state \<Rightarrow> DexPriceInfo loop_state \<times> pyerr option"
where
  "token_try L address token_data st =
     (case py_contains ''pairs'' token_data of
        Inl e \<Rightarrow> (st, Some e)
      | Inr False \<Rightarrow> (st, None)
      | Inr True \<Rightarrow>
          (case bind_err (py_getitem token_data ''pairs'') py_iter of
             Inl e \<Rightarrow> ((AList.update address [] (fst st), snd st), Some e)
           | Inr pairs \<Rightarrow>
               pairs_loop (price_pair_step L address) pairs
                 (AList.update address [] (fst st), snd st)))"

definition token_step ::
  "pylib \<Rightarrow> string \<Rightarrow> json \<Rightarrow> DexPriceInfo loop_state \<Rightarrow> DexPriceInfo loop_state \<times> pyerr option"
where
  "token_step L address token_data st =
     (case token_try L address token_data st of
        (st', None) \<Rightarrow> (st', None)
      | (st', Some e) \<Rightarrow>
          if caught_parse e
          then ((if map_of (fst st') address \<noteq> None then AList.delete address (fst st')
                 else fst st', snd st'), None)
          else (st', Some e))"

fun tokens_loop ::
  "pylib \<Rightarrow> (string \<times> json) list \<Rightarrow> DexPriceInfo loop_state
     \<Rightarrow> DexPriceInfo loop_state \<times> pyerr option"
where
  "tokens_loop L [] st = (st, None)"
| "tokens_loop L ((address, token_data) # rest) st =
     (case token_step L address token_data st of
        (st', None) \<Rightarrow> tokens_loop L rest st'
      | (st', Some e) \<Rightarrow> (st', Some e))"

definition fetch_prices_dex ::
  "pylib \<Rightarrow> http \<Rightarrow> string list \<Rightarrow> (string \<times> DexPriceInfo venues) list io"
where
  "fetch_prices_dex L net token_addresses =
     (case validate_token_addresses L token_addresses of
        Inl e \<Rightarrow> ([], Inl e)
      | Inr u \<Rightarrow>
          (case call_api_bulk L net token_addresses of
             (sent, Inl e) \<Rightarrow> (sent, Inl e)
           | (sent, Inr responses) \<Rightarrow>
               (case tokens_loop L responses ([], None) of
                  (st, None) \<Rightarrow> (sent, Inr (fst st))
                | (st, Some e) \<Rightarrow> (sent, Inl e))))"

subsection \<open>fetch_token_overview\<close>

text \<open>
  Modelled from the spec: \<^verbatim>\<open>clients.common.TokenOverview\<close> is not among the sources; it
  is the record of the spec with the six fields the call names, three of which this
  client fills with the marker \<^verbatim>\<open>"N/A"\<close>.
\<close>

record DexTokenOverview =
  dov_price :: decimal
  dov_symbol :: json
  dov_liquidity :: decimal
  dov_decimals :: string
  dov_lastTradeUnixTime :: string
  dov_supply :: string

text \<open>The operation returns either the dictionary or the string \<^verbatim>\<open>"Pairs Not Found"\<close>.\<close>

datatype overview_result =
    OvStr string
  | OvDict "(string \<times> DexTokenOverview venues) list"

definition overview_pair_try ::
  "pylib \<Rightarrow> string \<Rightarrow> json \<Rightarrow> DexTokenOverview loop_state
     \<Rightarrow> DexTokenOverview loop_state \<times> pyerr option"
where
  "overview_pair_try L address pair st =
     (case bind_err (py_get pair ''priceUsd'' (JFloat (Fin 0))) (py_Decimal L) of
        Inl e \<Rightarrow> (st, Some e)
      | Inr price' \<Rightarrow>
     (case bind_err (py_get pair ''baseToken'' (JObj [])) (\<lambda>b. py_get b ''symbol'' JNull) of
        Inl e \<Rightarrow> (st, Some e)
      | Inr symbol \<Rightarrow>
     (case bind_err (py_get pair ''liquidity'' (JObj [])) (\<lambda>l.
           bind_err (py_get l ''usd'' (JFloat (Fin 0))) (py_Decimal L)) of
        Inl e \<Rightarrow> (st, Some e)
      | Inr liquidity' \<Rightarrow>
     (case py_get pair ''dexId'' JNull of
        Inl e \<Rightarrow> (st, Some e)
      | Inr dex_id \<Rightarrow>
     (case set_venue address dex_id (fst st) of
        Inl e \<Rightarrow> ((fst st, Some dex_id), Some e)
      | Inr d1 \<Rightarrow>
     (case set_symbol address dex_id symbol
             \<lparr>dov_price = price', dov_symbol = symbol, dov_liquidity = liquidity',
              dov_decimals = ''N/A'', dov_lastTradeUnixTime = ''N/A'', dov_supply = ''N/A''\<rparr>
             d1 of
        Inl e \<Rightarrow> ((d1, Some dex_id), Some e)
      | Inr d2 \<Rightarrow> ((d2, Some dex_id), None)))))))"

definition overview_pair_step ::
  "pylib \<Rightarrow> string \<Rightarrow> json \<Rightarrow> DexTokenOverview loop_state
     \<Rightarrow> DexTokenOverview loop_state \<times> pyerr option"
where
  "overview_pair_step L address pair st =
     (case overview_pair_try L address pair st of
        (st', None) \<Rightarrow> (st', None)
      | (st', Some e) \<Rightarrow> if caught_parse e then drop_venue address st' else (st', Some e))"

definition dex_fetch_token_overview :: "pylib \<Rightarrow> http \<Rightarrow> string \<Rightarrow> overview_result io" where
  "dex_fetch_token_overview L net address =
     (case validate_token_address L address of
        Inl e \<Rightarrow> ([], Inl e)
      | Inr u \<Rightarrow>
          (case call_api L net address of
             (sent, Inl e) \<Rightarrow> (sent, Inl e)
           | (sent, Inr responses) \<Rightarrow>
               (sent,
                bind_err (py_get responses ''pairs'' JNull) (\<lambda>pairs.
                  if truthy pairs then
                    bind_err (py_iter pairs) (\<lambda>ps.
                      case pairs_loop (overview_pair_step L address) ps ([(address, [])], None) of
                        (st, None) \<Rightarrow> Inr (OvDict (fst st))
                      | (st, Some e) \<Rightarrow> Inl e)
                  else Inr (OvStr ''Pairs Not Found'')))))"

subsection \<open>find_largest_pool_with_sol\<close>

text \<open>
  \<^verbatim>\<open>SOL_MINT\<close> comes from \<^verbatim>\<open>constants\<close>, which is not among the sources: it is a
  parameter. The second operand of the \<^verbatim>\<open>and\<close> is evaluated only when the first holds.
\<close>

definition pool_matches :: "string \<Rightarrow> string \<Rightarrow> json \<Rightarrow> pyerr + bool" where
  "pool_matches SOL_MINT address entry =
     bind_err (py_get entry ''baseToken'' (JObj [])) (\<lambda>b.
     bind_err (py_get b ''address'' JNull) (\<lambda>a.
       if a = JStr address then
         bind_err (py_getitem entry ''quoteToken'') (\<lambda>q.
         bind_err (py_getitem q ''address'') (\<lambda>qa. Inr (qa = JStr SOL_MINT)))
       else Inr False))"

definition liquidity_usd_of :: "pylib \<Rightarrow> json \<Rightarrow> pyerr + pyfloat" where
  "liquidity_usd_of L entry =
     bind_err (py_get entry ''liquidity'' (JObj [])) (\<lambda>l.
     bind_err (py_get l ''usd'' (JInt 0)) (py_float L))"

fun pool_loop ::
  "pylib \<Rightarrow> string \<Rightarrow> string \<Rightarrow> json list \<Rightarrow> json \<times> pyfloat \<Rightarrow> pyerr + json \<times> pyfloat"
where
  "pool_loop L SOL_MINT address [] st = Inr st"
| "pool_loop L SOL_MINT address (entry # rest) st =
     (case pool_matches SOL_MINT address entry of
        Inl e \<Rightarrow> Inl e
      | Inr False \<Rightarrow> pool_loop L SOL_MINT address rest st
      | Inr True \<Rightarrow>
          (case liquidity_usd_of L entry of
             Inl e \<Rightarrow> Inl e
           | Inr liquidity_usd \<Rightarrow>
               if float_gt liquidity_usd (snd st)
               then pool_loop L SOL_MINT address rest (entry, liquidity_usd)
               else pool_loop L SOL_MINT address rest st))"

definition find_largest_pool_with_sol :: "pylib \<Rightarrow> string \<Rightarrow> json list \<Rightarrow> string \<Rightarrow> pyerr + json" where
  "find_largest_pool_with_sol L SOL_MINT token_pairs address =
     bind_err (pool_loop L SOL_MINT address token_pairs (JObj [], Fin (- 1))) (\<lambda>st. Inr (fst st))"

section \<open>A library instance for the evaluations\<close>

text \<open>
  The theorems below hold for every library \<open>L\<close>. Where one is evaluated at a concrete
  input, the library is \<open>ref_lib\<close>: a public key is a base58 string of at most 44
  characters that decodes to exactly 32 bytes; the string parsers read a plain integer
  literal, the only numeric strings the evaluations could meet (their payloads carry
  numbers); \<^verbatim>\<open>str\<close> of an exception is its single string argument, or empty.
\<close>

definition base58_digit :: "char \<Rightarrow> nat option" where
  "base58_digit c =
     (let n = (of_char c :: nat)
      in if 49 \<le> n \<and> n \<le> 57 then Some (n - 49)
         else if 65 \<le> n \<and> n \<le> 72 then Some (n - 56)
         else if 74 \<le> n \<and> n \<le> 78 then Some (n - 57)
         else if 80 \<le> n \<and> n \<le> 90 then Some (n - 58)
         else if 97 \<le> n \<and> n \<le> 107 then Some (n - 64)
         else if 109 \<le> n \<and> n \<le> 122 then Some (n - 65)
         else None)"

definition decimal_digit :: "char \<Rightarrow> nat option" where
  "decimal_digit c =
     (let n = (of_char c :: nat) in if 48 \<le> n \<and> n \<le> 57 then Some (n - 48) else None)"

fun digits_value :: "(char \<Rightarrow> nat option) \<Rightarrow> nat \<Rightarrow> string \<Rightarrow> nat \<Rightarrow> nat option" where
  "digits_value digit base [] acc = Some acc"
| "digits_value digit base (c # cs) acc =
     (case digit c of
        None \<Rightarrow> None
      | Some i \<Rightarrow> digits_value digit base cs (acc * base + i))"

text \<open>
  The decoded bytes are one zero byte for each leading \<open>1\<close> and the big-endian bytes of
  the value of the digits; they are 32 when the value needs exactly \<open>32 - z\<close> bytes.
\<close>

definition base58_pubkey :: "string \<Rightarrow> bool" where
  "base58_pubkey s =
     (length s \<le> 44 \<and>
      (case digits_value base58_digit 58 s 0 of
         None \<Rightarrow> False
       | Some v \<Rightarrow>
           let z = length (takeWhile (\<lambda>c. c = CHR ''1'') s)
           in z \<le> 32 \<and> v < 256 ^ (32 - z) \<and> (z = 32 \<or> 256 ^ (31 - z) \<le> v)))"

definition plain_int :: "string \<Rightarrow> int option" where
  "plain_int s =
     (case s of
        [] \<Rightarrow> None
      | c # cs \<Rightarrow>
          if c = CHR ''-'' \<and> cs \<noteq> []
          then map_option (\<lambda>n. - int n) (digits_value decimal_digit 10 cs 0)
          else map_option int (digits_value decimal_digit 10 s 0))"

fun ref_exc_str :: "pyerr \<Rightarrow> string" where
  "ref_exc_str (InvalidSolanaAddress [JStr s]) = s"
| "ref_exc_str (InvalidTokens [JStr s]) = s"
| "ref_exc_str (NoPositionsError [JStr s]) = s"
| "ref_exc_str _ = []"

definition ref_lib :: pylib where
  "ref_lib =
     \<lparr>pubkey_from_string = base58_pubkey,
      decimal_of_str = (\<lambda>s. map_option (\<lambda>n. DFin (of_int n)) (plain_int s)),
      decimal_of_seq = (\<lambda>xs. Inl ValueError),
      float_of_str = (\<lambda>s. case plain_int s of
                             None \<Rightarrow> None
                           | Some n \<Rightarrow> (case float_of_int n of
                                         Inl e \<Rightarrow> Some (if n < 0 then NegInf else PosInf)
                                       | Inr f \<Rightarrow> Some f)),
      int_of_str = plain_int,
      exc_str = ref_exc_str\<rparr>"

text \<open>The addresses, the configuration and the quote mint of the evaluations.\<close>

definition SOL :: string where
  "SOL = ''So11111111111111111111111111111111111111112''"

definition USDC :: string where
  "USDC = ''EPjFWdd5AufqSSqeM2qN1xzybapC8G4wEGGkZwyTDt1v''"

definition demo_config :: config where
  "demo_config = \<lparr>BASE_URL = ''https://public-api.birdeye.so'', BIRDEYE_API_KEY = ''key''\<rparr>"

definition respond :: "int \<Rightarrow> json \<Rightarrow> http" where
  "respond code body = (\<lambda>rq. \<lparr>status_code = code, json_body = body\<rparr>)"

definition multi_price_payload :: json where
  "multi_price_payload =
     JObj [(''data'',
       JObj [(SOL, JObj [(''value'', JFloat (Fin 150)), (''priceChange24h'', JFloat (Fin 2))])])]"

section \<open>The selector as the spec words it\<close>

text \<open>
  The value of \<^verbatim>\<open>liquidity.usd\<close> of a pair as an exact number, zero when it is absent;
  \<open>float_exact\<close> holds when that value is one that \<^verbatim>\<open>float\<close> converts without rounding:
  the default, a finite float, or an integer of magnitude at most \<open>2 ^ 53\<close>.
\<close>

definition usd_field :: "json \<Rightarrow> pyerr + json" where
  "usd_field entry =
     bind_err (py_get entry ''liquidity'' (JObj [])) (\<lambda>l. py_get l ''usd'' (JInt 0))"

definition usd_value :: "json \<Rightarrow> rat" where
  "usd_value entry =
     (case usd_field entry of
        Inr (JInt n) \<Rightarrow> of_int n
      | Inr (JFloat (Fin r)) \<Rightarrow> r
      | _ \<Rightarrow> 0)"

definition float_exact :: "json \<Rightarrow> bool" where
  "float_exact entry =
     (case usd_field entry of
        Inr (JInt n) \<Rightarrow> \<bar>n\<bar> \<le> 2 ^ 53
      | Inr (JFloat (Fin r)) \<Rightarrow> True
      | _ \<Rightarrow> False)"

text \<open>
  \<^verbatim>\<open>select_best_pool\<close> of the spec: keep the pairs whose base token is the target and
  whose quote token is the quote mint; among them take the one of maximal
  \<^verbatim>\<open>liquidity.usd\<close>, compared exactly, the first one on ties; none when no pair is kept.
\<close>

definition spec_select_best_pool :: "json list \<Rightarrow> string \<Rightarrow> string \<Rightarrow> json option" where
  "spec_select_best_pool pairs target quoteMint =
     (case filter (\<lambda>e. pool_matches quoteMint target e = Inr True) pairs of
        [] \<Rightarrow> None
      | s # ss \<Rightarrow> Some (fold (\<lambda>e best. if usd_value best < usd_value e then e else best) ss s))"

text \<open>A trading pair of the token \<open>USDC\<close> against the quote mint \<open>SOL\<close>, for the evaluations.\<close>

definition demo_pool :: "string \<Rightarrow> json \<Rightarrow> json" where
  "demo_pool dex usd =
     JObj [(''dexId'', JStr dex),
           (''baseToken'', JObj [(''address'', JStr USDC), (''symbol'', JStr ''USDC'')]),
           (''quoteToken'', JObj [(''address'', JStr SOL)]),
           (''priceUsd'', JFloat (Fin 1)),
           (''liquidity'', JObj [(''usd'', usd)])]"

text \<open>
  A transport for the evaluations of the bulk operations: the request for \<open>SOL\<close> is
  answered with status 500, every other request with status 200 and the given body.
\<close>

definition bulk_net :: "json \<Rightarrow> http" where
  "bulk_net body =
     (\<lambda>rq. if req_url rq = req_url (dex_request SOL)
            then \<lparr>status_code = 500, json_body = JNull\<rparr>
            else \<lparr>status_code = 200, json_body = body\<rparr>)"

definition pairs_payload :: json where
  "pairs_payload = JObj [(''pairs'', JList [demo_pool ''raydium'' (JFloat (Fin 1000))])]"


section \<open>Facts about the library instance and the transport wrapper\<close>

lemma SOL_valid: "is_solana_address ref_lib SOL"
  by (simp add: is_solana_address_def ref_lib_def SOL_def base58_pubkey_def base58_digit_def Let_def)

lemma USDC_valid: "is_solana_address ref_lib USDC"
  by (simp add: is_solana_address_def ref_lib_def USDC_def base58_pubkey_def base58_digit_def Let_def)

lemma not_an_address_invalid: "\<not> is_solana_address ref_lib ''not-an-address''"
  by (simp add: is_solana_address_def ref_lib_def base58_pubkey_def base58_digit_def Let_def)


lemma SOL_nonempty: "SOL \<noteq> []"
  by (simp add: SOL_def)

lemma USDC_nonempty: "USDC \<noteq> []"
  by (simp add: USDC_def)

lemma SOL_neq_USDC: "SOL \<noteq> USDC" "USDC \<noteq> SOL"
  by (simp_all add: SOL_def USDC_def)

lemma bind_err_eq_Inr: "(bind_err r f = Inr y) = (\<exists>v. r = Inr v \<and> f v = Inr y)"
  by (cases r) auto

lemma upper_GET: "upper ''GET'' = ''GET''"
  by (simp add: upper_def upper_char_def)

lemma make_api_call_GET:
  "make_api_call cfg net ''GET'' url = ([bird_request cfg ''GET'' url], Inr (net (bird_request cfg ''GET'' url)))"
  by (simp add: make_api_call_def upper_GET)

section \<open>BirdEye: the multi-price flow\<close>

lemma prices_loop_lookup:
  "prices_loop L data toks acc = Inr prices \<Longrightarrow>
     (t \<in> set toks \<longrightarrow> (\<exists>info. price_of_token L data t = Inr info \<and> map_of prices t = Some info))
     \<and> (t \<notin> set toks \<longrightarrow> map_of prices t = map_of acc t)"
proof (induction toks arbitrary: acc)
  case Nil
  then show ?case by simp
next
  case (Cons a toks)
  from Cons.prems obtain info where
    a: "price_of_token L data a = Inr info" and
    rest: "prices_loop L data toks (AList.update a info acc) = Inr prices"
    by (auto split: sum.splits)
  from Cons.IH [OF rest] show ?case
    using a by (auto simp: update_conv')
qed

lemma prices_loop_dom:
  "prices_loop L data toks acc = Inr prices \<Longrightarrow> set (map fst prices) = set (map fst acc) \<union> set toks"
proof (induction toks arbitrary: acc)
  case Nil
  then show ?case by simp
next
  case (Cons a toks)
  from Cons.prems obtain info where
    rest: "prices_loop L data toks (AList.update a info acc) = Inr prices"
    by (auto split: sum.splits)
  from Cons.IH [OF rest] show ?case
    by (auto simp: update_keys simp del: set_map)
qed

lemma fetch_prices_success:
  assumes "fetch_prices cfg L net toks = (sent, Inr out)"
  shows "toks \<noteq> []"
    and "sent = [bird_request cfg ''GET'' (multi_price_url cfg toks)]"
    and "status_code (net (bird_request cfg ''GET'' (multi_price_url cfg toks))) = 200"
    and "\<exists>prices. prices_loop L (json_body (net (bird_request cfg ''GET'' (multi_price_url cfg toks)))) toks [] = Inr prices
           \<and> out = \<lparr>printed = [prices], returned = None\<rparr>"
  using assms
  by (auto simp: fetch_prices_def make_api_call_GET bind_err_eq_Inr split: if_splits)

text \<open>
  Whatever the inputs, a call of \<^verbatim>\<open>fetch_prices\<close> that does not raise returns \<^verbatim>\<open>None\<close>:
  the mapping it has computed goes to the standard output only, and holds an entry for
  every requested address.
\<close>

lemma fetch_prices_never_returns_mapping:
  "snd (fetch_prices cfg L net toks) \<noteq> Inr \<lparr>printed = p, returned = Some m\<rparr>"
proof
  assume h: "snd (fetch_prices cfg L net toks) = Inr \<lparr>printed = p, returned = Some m\<rparr>"
  then have "fetch_prices cfg L net toks = (fst (fetch_prices cfg L net toks), Inr \<lparr>printed = p, returned = Some m\<rparr>)"
    by (metis prod.collapse)
  from fetch_prices_success(4) [OF this] show False by auto
qed

lemma fetch_prices_printed_keys:
  assumes "fetch_prices cfg L net toks = (sent, Inr out)"
  shows "\<exists>prices. printed out = [prices] \<and> set (map fst prices) = set toks"
proof -
  from fetch_prices_success(4) [OF assms] obtain prices where
    l: "prices_loop L (json_body (net (bird_request cfg ''GET'' (multi_price_url cfg toks)))) toks [] = Inr prices"
    and o: "out = \<lparr>printed = [prices], returned = None\<rparr>" by blast
  from prices_loop_dom [OF l] o show ?thesis by simp
qed

lemma multi_price_eval:
  "fetch_prices demo_config ref_lib (respond 200 multi_price_payload) [SOL, USDC]
    = ([bird_request demo_config ''GET'' (multi_price_url demo_config [SOL, USDC])],
       Inr \<lparr>printed = [[(SOL, \<lparr>price = DFin 150, liquidity = DFin 2\<rparr>),
                          (USDC, \<lparr>price = DFin 0, liquidity = DFin 0\<rparr>)]],
            returned = None\<rparr>)"
  using SOL_neq_USDC
  by (simp add: fetch_prices_def make_api_call_GET price_of_token_def respond_def
      multi_price_payload_def)

text \<open>
  C1. For a non-empty list of valid addresses and a status-200 response, the claim has
  \<^verbatim>\<open>fetch_prices\<close> return a mapping with an entry for every requested address. At the
  two valid addresses below, with a well-formed payload that omits the second, the
  operation computes that mapping, prints it, and returns \<^verbatim>\<open>None\<close>.
\<close>

theorem fetch_prices_returns_None:
  "is_solana_address ref_lib SOL \<and> is_solana_address ref_lib USDC \<and>
   fetch_prices demo_config ref_lib (respond 200 multi_price_payload) [SOL, USDC]
    = ([bird_request demo_config ''GET'' (multi_price_url demo_config [SOL, USDC])],
       Inr \<lparr>printed = [[(SOL, \<lparr>price = DFin 150, liquidity = DFin 2\<rparr>),
                          (USDC, \<lparr>price = DFin 0, liquidity = DFin 0\<rparr>)]],
            returned = None\<rparr>)"
  using multi_price_eval by (simp add: SOL_valid USDC_valid)

text \<open>
  C10. In the multi-price flow, whenever the operation completes, every requested token
  whose entry in the upstream \<^verbatim>\<open>data\<close> object is present (and not empty) has a
  \<^verbatim>\<open>PriceInfo\<close> whose \<^verbatim>\<open>price\<close> is the decimal of the upstream \<^verbatim>\<open>value\<close> field and whose
  \<^verbatim>\<open>liquidity\<close> is the decimal of the upstream \<^verbatim>\<open>priceChange24h\<close> field.
\<close>

theorem fetch_prices_liquidity_from_priceChange24h:
  assumes "fetch_prices cfg L net toks = (sent, Inr out)"
    and "token \<in> set toks"
    and "json_body (net (bird_request cfg ''GET'' (multi_price_url cfg toks))) = JObj body"
    and "map_of body ''data'' = Some (JObj entries)"
    and "map_of entries token = Some token_data"
    and "truthy token_data"
  shows "\<exists>prices v c p l.
           printed out = [prices] \<and>
           py_getitem token_data ''value'' = Inr v \<and> py_Decimal L v = Inr p \<and>
           py_getitem token_data ''priceChange24h'' = Inr c \<and> py_Decimal L c = Inr l \<and>
           map_of prices token = Some \<lparr>price = p, liquidity = l\<rparr>"
proof -
  let ?data = "json_body (net (bird_request cfg ''GET'' (multi_price_url cfg toks)))"
  from fetch_prices_success(4) [OF assms(1)] obtain prices where
    l: "prices_loop L ?data toks [] = Inr prices"
    and o: "out = \<lparr>printed = [prices], returned = None\<rparr>" by blast
  from prices_loop_lookup [OF l, of token] assms(2) obtain info where
    i: "price_of_token L ?data token = Inr info" and m: "map_of prices token = Some info"
    by blast
  from i assms(3-6) obtain v c p l' where
    "py_getitem token_data ''value'' = Inr v" "py_Decimal L v = Inr p"
    "py_getitem token_data ''priceChange24h'' = Inr c" "py_Decimal L c = Inr l'"
    "info = \<lparr>price = p, liquidity = l'\<rparr>"
    by (auto simp: price_of_token_def bind_err_eq_Inr)
  with m o show ?thesis by auto
qed

theorem fetch_prices_liquidity_from_priceChange24h_witness:
  "\<exists>prices v c p l.
     printed \<lparr>printed = [[(SOL, \<lparr>price = DFin 150, liquidity = DFin 2\<rparr>),
                          (USDC, \<lparr>price = DFin 0, liquidity = DFin 0\<rparr>)]],
              returned = None\<rparr> = [prices] \<and>
     py_getitem (JObj [(''value'', JFloat (Fin 150)), (''priceChange24h'', JFloat (Fin 2))])
       ''value'' = Inr v \<and> py_Decimal ref_lib v = Inr p \<and>
     py_getitem (JObj [(''value'', JFloat (Fin 150)), (''priceChange24h'', JFloat (Fin 2))])
       ''priceChange24h'' = Inr c \<and> py_Decimal ref_lib c = Inr l \<and>
     map_of prices SOL = Some \<lparr>price = p, liquidity = l\<rparr>"
proof -
  have h2: "SOL \<in> set [SOL, USDC]" by simp
  have h3: "json_body (respond 200 multi_price_payload
              (bird_request demo_config ''GET'' (multi_price_url demo_config [SOL, USDC])))
            = JObj [(''data'', JObj [(SOL, JObj [(''value'', JFloat (Fin 150)),
                                                  (''priceChange24h'', JFloat (Fin 2))])])]"
    by (simp add: respond_def multi_price_payload_def)
  have h4: "map_of [(''data'', JObj [(SOL, JObj [(''value'', JFloat (Fin 150)),
                                                  (''priceChange24h'', JFloat (Fin 2))])])] ''data''
            = Some (JObj [(SOL, JObj [(''value'', JFloat (Fin 150)),
                                      (''priceChange24h'', JFloat (Fin 2))])])"
    by simp
  have h5: "map_of [(SOL, JObj [(''value'', JFloat (Fin 150)), (''priceChange24h'', JFloat (Fin 2))])] SOL
            = Some (JObj [(''value'', JFloat (Fin 150)), (''priceChange24h'', JFloat (Fin 2))])"
    by simp
  have h6: "truthy (JObj [(''value'', JFloat (Fin 150)), (''priceChange24h'', JFloat (Fin 2))])"
    by simp
  show ?thesis
    by (rule fetch_prices_liquidity_from_priceChange24h [OF multi_price_eval h2 h3 h4 h5 h6])
qed

section \<open>Status codes of the BirdEye endpoints\<close>

text \<open>
  C6, as stated, fails: the multi-price operation raises the same error for a 401 as for
  a 500, and the error the overview operation raises for a 500 is the one it raises for
  a 503, so it carries no status code.
\<close>

theorem bird_status_errors_counterexample:
  "fetch_prices demo_config ref_lib (respond 401 JNull) [SOL]
     = ([bird_request demo_config ''GET'' (multi_price_url demo_config [SOL])],
        Inl (InvalidTokens [JStr ''API call was unsuccessful''])) \<and>
   fetch_prices demo_config ref_lib (respond 500 JNull) [SOL]
     = ([bird_request demo_config ''GET'' (multi_price_url demo_config [SOL])],
        Inl (InvalidTokens [JStr ''API call was unsuccessful''])) \<and>
   bird_fetch_token_overview demo_config ref_lib (respond 500 JNull) SOL
     = ([bird_request demo_config ''GET'' (token_overview_url SOL)],
        Inl (InvalidTokens [JStr ''API call was unsuccessful''])) \<and>
   bird_fetch_token_overview demo_config ref_lib (respond 503 JNull) SOL
     = ([bird_request demo_config ''GET'' (token_overview_url SOL)],
        Inl (InvalidTokens [JStr ''API call was unsuccessful'']))"
  by (simp add: fetch_prices_def bird_fetch_token_overview_def make_api_call_GET respond_def
      SOL_valid SOL_nonempty)

text \<open>
  C6, amended. In the token-overview operation a 401 response raises \<^verbatim>\<open>InvalidTokens\<close>
  with the argument \<^verbatim>\<open>{"CODE": 401, "message": "Token is not Authorized"}\<close>, which differs
  from the \<^verbatim>\<open>InvalidTokens("API call was unsuccessful")\<close> raised for every other non-200
  status; the multi-price operation raises that generic error for every non-200 status,
  401 included. The generic error does not carry the status code.
\<close>

theorem bird_status_errors:
  assumes "is_solana_address L address" and "toks \<noteq> []"
  shows "(status_code (net (bird_request cfg ''GET'' (token_overview_url address))) = 401 \<longrightarrow>
            bird_fetch_token_overview cfg L net address
              = ([bird_request cfg ''GET'' (token_overview_url address)],
                 Inl (InvalidTokens [JObj [(''CODE'', JInt 401),
                                           (''message'', JStr ''Token is not Authorized'')]]))) \<and>
         (status_code (net (bird_request cfg ''GET'' (token_overview_url address))) \<noteq> 401 \<and>
          status_code (net (bird_request cfg ''GET'' (token_overview_url address))) \<noteq> 200 \<longrightarrow>
            bird_fetch_token_overview cfg L net address
              = ([bird_request cfg ''GET'' (token_overview_url address)],
                 Inl (InvalidTokens [JStr ''API call was unsuccessful'']))) \<and>
         InvalidTokens [JObj [(''CODE'', JInt 401), (''message'', JStr ''Token is not Authorized'')]]
           \<noteq> InvalidTokens [JStr ''API call was unsuccessful''] \<and>
         (status_code (net (bird_request cfg ''GET'' (multi_price_url cfg toks))) \<noteq> 200 \<longrightarrow>
            fetch_prices cfg L net toks
              = ([bird_request cfg ''GET'' (multi_price_url cfg toks)],
                 Inl (InvalidTokens [JStr ''API call was unsuccessful''])))"
  using assms
  by (simp add: fetch_prices_def bird_fetch_token_overview_def make_api_call_GET)

theorem bird_status_errors_witness:
  "bird_fetch_token_overview demo_config ref_lib (respond 401 JNull) SOL
     = ([bird_request demo_config ''GET'' (token_overview_url SOL)],
        Inl (InvalidTokens [JObj [(''CODE'', JInt 401),
                                  (''message'', JStr ''Token is not Authorized'')]])) \<and>
   bird_fetch_token_overview demo_config ref_lib (respond 404 JNull) SOL
     = ([bird_request demo_config ''GET'' (token_overview_url SOL)],
        Inl (InvalidTokens [JStr ''API call was unsuccessful''])) \<and>
   fetch_prices demo_config ref_lib (respond 401 JNull) [SOL, USDC]
     = ([bird_request demo_config ''GET'' (multi_price_url demo_config [SOL, USDC])],
        Inl (InvalidTokens [JStr ''API call was unsuccessful'']))"
proof -
  have ne: "[SOL, USDC] \<noteq> []" by simp
  show ?thesis
    using bird_status_errors [OF SOL_valid ne, of "respond 401 JNull" demo_config]
      bird_status_errors [OF SOL_valid ne, of "respond 404 JNull" demo_config]
    by (simp add: respond_def)
qed

section \<open>Empty input\<close>

lemma validate_token_address_cases:
  "validate_token_address L a =
     (if a \<noteq> [] \<and> is_solana_address L a then Inr () else Inl (InvalidSolanaAddress [JStr a]))"
  by (simp add: validate_token_address_def validate_token_address_try_def)

text \<open>
  The empty string in \<^verbatim>\<open>_validate_token_address\<close>: the \<^verbatim>\<open>NoPositionsError\<close> raised in
  the \<^verbatim>\<open>try\<close> is caught by its own handler and replaced, whatever the library.
\<close>

lemma validate_token_address_empty:
  "validate_token_address_try L [] = Inl (NoPositionsError []) \<and>
   validate_token_address L [] = Inl (InvalidSolanaAddress [JStr []])"
  by (simp add: validate_token_address_def validate_token_address_try_def)




section \<open>Validation before the network\<close>


lemma validate_each_rejects:
  "a \<in> set addrs \<Longrightarrow> validate_token_address L a \<noteq> Inr () \<Longrightarrow>
     \<exists>b \<in> set addrs. validate_each L addrs = Inl (InvalidSolanaAddress [JStr b])"
proof (induction addrs)
  case Nil
  then show ?case by simp
next
  case (Cons x addrs)
  show ?case
  proof (cases "validate_token_address L x = Inr ()")
    case True
    with Cons.prems have "a \<in> set addrs" by auto
    from Cons.IH [OF this Cons.prems(2)] True show ?thesis by auto
  next
    case False
    then have "validate_token_address L x = Inl (InvalidSolanaAddress [JStr x])"
      by (simp add: validate_token_address_cases split: if_splits)
    then show ?thesis by auto
  qed
qed






section \<open>The DexScreener overview: no pairs\<close>

text \<open>
  C9. For a valid address and a status-200 response whose body is a JSON object, the
  overview operation returns the string \<^verbatim>\<open>"Pairs Not Found"\<close> when the value under
  \<^verbatim>\<open>pairs\<close> is absent, null or empty (it does not raise and builds no record), and it never
  returns a string when that value is not empty: the string tells "not found" apart from
  every dictionary of overviews.
\<close>

theorem overview_pairs_not_found:
  assumes "is_solana_address L a" and "a \<noteq> []"
    and "status_code (net (dex_request a)) = 200"
    and "json_body (net (dex_request a)) = JObj kvs"
  shows "(\<not> truthy (case map_of kvs ''pairs'' of None \<Rightarrow> JNull | Some v \<Rightarrow> v) \<longrightarrow>
            dex_fetch_token_overview L net a = ([dex_request a], Inr (OvStr ''Pairs Not Found''))) \<and>
         (truthy (case map_of kvs ''pairs'' of None \<Rightarrow> JNull | Some v \<Rightarrow> v) \<longrightarrow>
            (\<forall>s. snd (dex_fetch_token_overview L net a) \<noteq> Inr (OvStr s)))"
  using assms
  by (auto simp: dex_fetch_token_overview_def call_api_def validate_token_address_cases
      validate_response_def Let_def bind_err_eq_Inr split: prod.splits option.splits)

theorem overview_pairs_not_found_witness:
  "dex_fetch_token_overview ref_lib (respond 200 (JObj [(''pairs'', JList [])])) SOL
     = ([dex_request SOL], Inr (OvStr ''Pairs Not Found'')) \<and>
   dex_fetch_token_overview ref_lib (respond 200 (JObj [(''schemaVersion'', JStr ''1.0.0'')])) SOL
     = ([dex_request SOL], Inr (OvStr ''Pairs Not Found'')) \<and>
   dex_fetch_token_overview ref_lib (respond 200 (JObj [(''pairs'', JNull)])) SOL
     = ([dex_request SOL], Inr (OvStr ''Pairs Not Found'')) \<and>
   snd (dex_fetch_token_overview ref_lib
          (respond 200 (JObj [(''pairs'', JList [JObj [(''dexId'', JStr ''raydium'')]])])) SOL)
     \<noteq> Inr (OvStr ''Pairs Not Found'')"
  using overview_pairs_not_found [of ref_lib SOL "respond 200 (JObj [(''pairs'', JList [])])"
        "[(''pairs'', JList [])]"]
    overview_pairs_not_found [of ref_lib SOL
        "respond 200 (JObj [(''schemaVersion'', JStr ''1.0.0'')])"
        "[(''schemaVersion'', JStr ''1.0.0'')]"]
    overview_pairs_not_found [of ref_lib SOL "respond 200 (JObj [(''pairs'', JNull)])"
        "[(''pairs'', JNull)]"]
    overview_pairs_not_found [of ref_lib SOL
        "respond 200 (JObj [(''pairs'', JList [JObj [(''dexId'', JStr ''raydium'')]])])"
        "[(''pairs'', JList [JObj [(''dexId'', JStr ''raydium'')]])]"]
  by (simp add: SOL_valid SOL_nonempty respond_def)

section \<open>The pool selector\<close>

lemma bitlen_eq: "2 ^ k \<le> n \<Longrightarrow> n < 2 ^ Suc k \<Longrightarrow> bitlen n = Suc k"
proof (induction k arbitrary: n)
  case 0
  then have "n = 1" by simp
  then show ?case by (simp add: bitlen.simps)
next
  case (Suc k)
  have "2 ^ k \<le> n div 2" using Suc.prems by simp
  moreover have "n div 2 < 2 ^ Suc k" using Suc.prems by simp
  ultimately have "bitlen (n div 2) = Suc k" by (rule Suc.IH)
  moreover have "n \<noteq> 0" using Suc.prems by auto
  ultimately show ?case by (subst bitlen.simps) simp
qed

lemma round_half_even_53_small: "n \<le> 2 ^ 53 \<Longrightarrow> round_half_even_53 n = n"
proof (cases "n < 2 ^ 53")
  case True
  then show ?thesis by (simp add: round_half_even_53_def)
next
  case False
  assume "n \<le> 2 ^ 53"
  with False have n: "n = 2 ^ 53" by simp
  have "bitlen (2 ^ 53) = Suc 53" by (rule bitlen_eq) simp_all
  then show ?thesis unfolding n by (simp add: round_half_even_53_def Let_def)
qed

lemma float_of_int_exact: "\<bar>n\<bar> \<le> 2 ^ 53 \<Longrightarrow> float_of_int n = Inr (Fin (of_int n))"
proof -
  assume a: "\<bar>n\<bar> \<le> 2 ^ 53"
  then have "nat \<bar>n\<bar> \<le> 2 ^ 53" by (simp add: nat_le_iff)
  then have r: "round_half_even_53 (nat \<bar>n\<bar>) = nat \<bar>n\<bar>" by (rule round_half_even_53_small)
  have "nat \<bar>n\<bar> < 2 ^ 1024"
    using \<open>nat \<bar>n\<bar> \<le> 2 ^ 53\<close> by (rule le_less_trans) simp
  then show ?thesis by (simp add: float_of_int_def r Let_def)
qed

lemma float_exact_liquidity:
  "float_exact e \<Longrightarrow> liquidity_usd_of L e = Inr (Fin (usd_value e))"
  by (cases "usd_field e")
     (auto simp: float_exact_def usd_value_def liquidity_usd_of_def usd_field_def
        bind_err_eq_Inr float_of_int_exact split: json.splits pyfloat.splits)

lemma pool_loop_skip:
  "pool_matches mint target x = Inr False \<Longrightarrow>
     pool_loop L mint target (x # xs) st = pool_loop L mint target xs st"
  by simp

lemma pool_loop_take:
  "pool_matches mint target x = Inr True \<Longrightarrow> float_exact x \<Longrightarrow>
     pool_loop L mint target (x # xs) (e0, Fin m0) =
       (if m0 < usd_value x then pool_loop L mint target xs (x, Fin (usd_value x))
        else pool_loop L mint target xs (e0, Fin m0))"
  by (simp add: float_exact_liquidity)

lemma split_prepend:
  assumes "xs = pre @ r # post" and "P r"
    and "\<forall>e\<in>set pre. P e \<longrightarrow> f e < (m::rat)"
    and "\<forall>e\<in>set post. P e \<longrightarrow> f e \<le> m"
    and "P x \<longrightarrow> f x < m"
  shows "\<exists>pre post. x # xs = pre @ r # post \<and> P r \<and>
           (\<forall>e\<in>set pre. P e \<longrightarrow> f e < m) \<and> (\<forall>e\<in>set post. P e \<longrightarrow> f e \<le> m)"
proof (rule exI [of _ "x # pre"], rule exI [of _ post])
  show "x # xs = (x # pre) @ r # post \<and> P r \<and>
          (\<forall>e\<in>set (x # pre). P e \<longrightarrow> f e < m) \<and> (\<forall>e\<in>set post. P e \<longrightarrow> f e \<le> m)"
    using assms by simp
qed

lemma split_head:
  assumes "P x" and "\<forall>e\<in>set xs. P e \<longrightarrow> f e \<le> (f x :: rat)"
  shows "\<exists>pre post. x # xs = pre @ x # post \<and> P x \<and>
           (\<forall>e\<in>set pre. P e \<longrightarrow> f e < f x) \<and> (\<forall>e\<in>set post. P e \<longrightarrow> f e \<le> f x)"
proof (rule exI [of _ "[]"], rule exI [of _ xs])
  show "x # xs = [] @ x # xs \<and> P x \<and>
          (\<forall>e\<in>set []. P e \<longrightarrow> f e < f x) \<and> (\<forall>e\<in>set xs. P e \<longrightarrow> f e \<le> f x)"
    using assms by simp
qed

lemma pool_loop_first_max:
  assumes "\<forall>e\<in>set pairs. \<exists>m. pool_matches mint target e = Inr m"
    and "\<forall>e\<in>set pairs. pool_matches mint target e = Inr True \<longrightarrow> float_exact e"
  shows "\<exists>r m. pool_loop L mint target pairs (e0, Fin m0) = Inr (r, Fin m) \<and>
     (if \<exists>e\<in>set pairs. pool_matches mint target e = Inr True \<and> m0 < usd_value e
      then m0 < m \<and> m = usd_value r \<and>
           (\<exists>pre post. pairs = pre @ r # post \<and> pool_matches mint target r = Inr True \<and>
              (\<forall>e\<in>set pre. pool_matches mint target e = Inr True \<longrightarrow> usd_value e < m) \<and>
              (\<forall>e\<in>set post. pool_matches mint target e = Inr True \<longrightarrow> usd_value e \<le> m))
      else r = e0 \<and> m = m0)"
  using assms
proof (induction pairs arbitrary: e0 m0)
  case Nil
  then show ?case by simp
next
  case (Cons x xs)
  let ?P = "\<lambda>e. pool_matches mint target e = Inr True"
  let ?split = "\<lambda>ys r m. \<exists>pre post. ys = pre @ r # post \<and> ?P r \<and>
                (\<forall>e\<in>set pre. ?P e \<longrightarrow> usd_value e < m) \<and>
                (\<forall>e\<in>set post. ?P e \<longrightarrow> usd_value e \<le> m)"
  from Cons.prems have wf: "\<forall>e\<in>set xs. \<exists>m. pool_matches mint target e = Inr m"
    and ex: "\<forall>e\<in>set xs. ?P e \<longrightarrow> float_exact e" by simp_all
  note IH = Cons.IH [OF wf ex]
  from Cons.prems(1) obtain mx where mx: "pool_matches mint target x = Inr mx" by auto
  show ?case
  proof (cases mx)
    case False
    with mx have nx: "pool_matches mint target x = Inr False" by simp
    then have npx: "\<not> ?P x" by simp
    from IH [of e0 m0] obtain r m where
      run: "pool_loop L mint target xs (e0, Fin m0) = Inr (r, Fin m)" and
      res: "if \<exists>e\<in>set xs. ?P e \<and> m0 < usd_value e
            then m0 < m \<and> m = usd_value r \<and> ?split xs r m
            else r = e0 \<and> m = m0" by blast
    have run': "pool_loop L mint target (x # xs) (e0, Fin m0) = Inr (r, Fin m)"
      using run by (simp only: pool_loop_skip [OF nx])
    show ?thesis
    proof (cases "\<exists>e\<in>set xs. ?P e \<and> m0 < usd_value e")
      case True
      from res have d0: "m0 < m \<and> m = usd_value r \<and> ?split xs r m"
        unfolding if_P [OF True] .
      from d0 have d: "m0 < m" "m = usd_value r" "?split xs r m" by blast+
      from d(3) obtain pre post where
        s: "xs = pre @ r # post" "?P r" "\<forall>e\<in>set pre. ?P e \<longrightarrow> usd_value e < m"
           "\<forall>e\<in>set post. ?P e \<longrightarrow> usd_value e \<le> m" by blast
      have hx: "?P x \<longrightarrow> usd_value x < m" using npx by simp
      have sp: "?split (x # xs) r m" by (rule split_prepend [OF s hx])
      have c: "\<exists>e\<in>set (x # xs). ?P e \<and> m0 < usd_value e" using True by simp
      have "if \<exists>e\<in>set (x # xs). ?P e \<and> m0 < usd_value e
            then m0 < m \<and> m = usd_value r \<and> ?split (x # xs) r m
            else r = e0 \<and> m = m0"
        unfolding if_P [OF c] by (intro conjI d(1) d(2) sp)
      with run' show ?thesis by blast
    next
      case F: False
      then have nc: "\<not> (\<exists>e\<in>set (x # xs). ?P e \<and> m0 < usd_value e)" using npx by simp
      from res have e: "r = e0 \<and> m = m0" unfolding if_not_P [OF F] .
      have "if \<exists>e\<in>set (x # xs). ?P e \<and> m0 < usd_value e
            then m0 < m \<and> m = usd_value r \<and> ?split (x # xs) r m
            else r = e0 \<and> m = m0"
        unfolding if_not_P [OF nc] by (rule e)
      with run' show ?thesis by blast
    qed
  next
    case True
    with mx have px: "?P x" by simp
    with Cons.prems(2) have fx: "float_exact x" by simp
    note step = pool_loop_take [OF px fx, of L xs]
    show ?thesis
    proof (cases "m0 < usd_value x")
      case gt: True
      from IH [of x "usd_value x"] obtain r m where
        run: "pool_loop L mint target xs (x, Fin (usd_value x)) = Inr (r, Fin m)" and
        res: "if \<exists>e\<in>set xs. ?P e \<and> usd_value x < usd_value e
              then usd_value x < m \<and> m = usd_value r \<and> ?split xs r m
              else r = x \<and> m = usd_value x" by blast
      have c: "\<exists>e\<in>set (x # xs). ?P e \<and> m0 < usd_value e" using px gt by simp
      have run': "pool_loop L mint target (x # xs) (e0, Fin m0) = Inr (r, Fin m)"
        using run gt by (simp only: step if_True)
      have "m0 < m \<and> m = usd_value r \<and> ?split (x # xs) r m"
      proof (cases "\<exists>e\<in>set xs. ?P e \<and> usd_value x < usd_value e")
        case True
        from res have d0: "usd_value x < m \<and> m = usd_value r \<and> ?split xs r m"
          unfolding if_P [OF True] .
        from d0 have d: "usd_value x < m" "m = usd_value r" "?split xs r m" by blast+
        from d(3) obtain pre post where
          s: "xs = pre @ r # post" "?P r" "\<forall>e\<in>set pre. ?P e \<longrightarrow> usd_value e < m"
             "\<forall>e\<in>set post. ?P e \<longrightarrow> usd_value e \<le> m" by blast
        have hx: "?P x \<longrightarrow> usd_value x < m" using d(1) by simp
        have sp: "?split (x # xs) r m" by (rule split_prepend [OF s hx])
        have "m0 < m" using gt d(1) by simp
        then show ?thesis by (intro conjI d(2) sp)
      next
        case F: False
        from res have rm0: "r = x \<and> m = usd_value x" unfolding if_not_P [OF F] .
        then have rm: "r = x" "m = usd_value x" by blast+
        have le: "\<forall>e\<in>set xs. ?P e \<longrightarrow> usd_value e \<le> usd_value x"
          using F by (auto simp: not_less)
        have sp: "?split (x # xs) x (usd_value x)" by (rule split_head [OF px le])
        show ?thesis unfolding rm by (intro conjI gt refl sp)
      qed
      then have "if \<exists>e\<in>set (x # xs). ?P e \<and> m0 < usd_value e
            then m0 < m \<and> m = usd_value r \<and> ?split (x # xs) r m
            else r = e0 \<and> m = m0"
        unfolding if_P [OF c] .
      with run' show ?thesis by blast
    next
      case le: False
      from IH [of e0 m0] obtain r m where
        run: "pool_loop L mint target xs (e0, Fin m0) = Inr (r, Fin m)" and
        res: "if \<exists>e\<in>set xs. ?P e \<and> m0 < usd_value e
              then m0 < m \<and> m = usd_value r \<and> ?split xs r m
              else r = e0 \<and> m = m0" by blast
      have run': "pool_loop L mint target (x # xs) (e0, Fin m0) = Inr (r, Fin m)"
        using run le by (simp only: step if_False)
      show ?thesis
      proof (cases "\<exists>e\<in>set xs. ?P e \<and> m0 < usd_value e")
        case True
        from res have d0: "m0 < m \<and> m = usd_value r \<and> ?split xs r m"
        unfolding if_P [OF True] .
      from d0 have d: "m0 < m" "m = usd_value r" "?split xs r m" by blast+
        from d(3) obtain pre post where
          s: "xs = pre @ r # post" "?P r" "\<forall>e\<in>set pre. ?P e \<longrightarrow> usd_value e < m"
             "\<forall>e\<in>set post. ?P e \<longrightarrow> usd_value e \<le> m" by blast
        have hx: "?P x \<longrightarrow> usd_value x < m" using d(1) le by simp
        have sp: "?split (x # xs) r m" by (rule split_prepend [OF s hx])
        have c: "\<exists>e\<in>set (x # xs). ?P e \<and> m0 < usd_value e" using True by simp
        have "if \<exists>e\<in>set (x # xs). ?P e \<and> m0 < usd_value e
              then m0 < m \<and> m = usd_value r \<and> ?split (x # xs) r m
              else r = e0 \<and> m = m0"
          unfolding if_P [OF c] by (intro conjI d(1) d(2) sp)
        with run' show ?thesis by blast
      next
        case F: False
        then have nc: "\<not> (\<exists>e\<in>set (x # xs). ?P e \<and> m0 < usd_value e)" using le by simp
        from res have e: "r = e0 \<and> m = m0" unfolding if_not_P [OF F] .
        have "if \<exists>e\<in>set (x # xs). ?P e \<and> m0 < usd_value e
              then m0 < m \<and> m = usd_value r \<and> ?split (x # xs) r m
              else r = e0 \<and> m = m0"
          unfolding if_not_P [OF nc] by (rule e)
        with run' show ?thesis by blast
      qed
    qed
  qed
qed

lemma demo_pool_matches: "pool_matches SOL USDC (demo_pool dex usd) = Inr True"
  by (simp add: pool_matches_def demo_pool_def)

lemma demo_pool_usd_field: "usd_field (demo_pool dex usd) = Inr usd"
  by (simp add: usd_field_def demo_pool_def)

lemma demo_pool_liquidity: "liquidity_usd_of L (demo_pool dex usd) = py_float L usd"
  by (simp add: liquidity_usd_of_def demo_pool_def)

lemma demo_pool_inj: "(demo_pool d u = demo_pool d' u') = (d = d' \<and> u = u')"
  by (auto simp: demo_pool_def)

lemma float_of_int_rounds: "float_of_int 9007199254740993 = Inr (Fin 9007199254740992)"
  using bitlen_eq [of 53 9007199254740993]
  by (simp add: float_of_int_def round_half_even_53_def Let_def)

text \<open>
  C3, as stated, fails: the running maximum starts at \<open>-1\<close>, so a pair that passes the
  filter with a \<^verbatim>\<open>liquidity.usd\<close> of \<open>-2\<close> is never taken, although it is the only
  pair, and the selector returns its "not found" value, the empty dict.
\<close>

theorem find_largest_pool_counterexample:
  "pool_matches SOL USDC (demo_pool ''raydium'' (JInt (- 2))) = Inr True \<and>
   find_largest_pool_with_sol ref_lib SOL [demo_pool ''raydium'' (JInt (- 2))] USDC = Inr (JObj [])"
  using float_of_int_exact [of "- 2"]
  by (simp add: demo_pool_matches find_largest_pool_with_sol_def demo_pool_liquidity)

text \<open>
  C3, amended. Take a sequence of pairs on which the filter can be evaluated, and in
  which every pair that passes it has a \<^verbatim>\<open>liquidity.usd\<close> that \<^verbatim>\<open>float\<close> converts exactly.
  If some pair passing the filter has \<^verbatim>\<open>liquidity.usd\<close> above \<open>-1\<close>, the selector returns
  the first-occurring pair of maximal \<^verbatim>\<open>liquidity.usd\<close> among the pairs passing the
  filter: every such pair before it has a strictly smaller value, every such pair after
  it a value at most as large. Otherwise, and so when no pair passes the filter, it
  returns the empty dict.
\<close>

theorem find_largest_pool_first_maximal:
  assumes "\<forall>e\<in>set pairs. \<exists>m. pool_matches mint target e = Inr m"
    and "\<forall>e\<in>set pairs. pool_matches mint target e = Inr True \<longrightarrow> float_exact e"
  shows "\<exists>r. find_largest_pool_with_sol L mint pairs target = Inr r \<and>
     (if \<exists>e\<in>set pairs. pool_matches mint target e = Inr True \<and> - 1 < usd_value e
      then \<exists>pre post. pairs = pre @ r # post \<and> pool_matches mint target r = Inr True \<and>
             - 1 < usd_value r \<and>
             (\<forall>e\<in>set pre. pool_matches mint target e = Inr True \<longrightarrow> usd_value e < usd_value r) \<and>
             (\<forall>e\<in>set post. pool_matches mint target e = Inr True \<longrightarrow> usd_value e \<le> usd_value r)
      else r = JObj [])"
proof -
  from pool_loop_first_max [OF assms, of L "JObj []" "- 1"] obtain r m where
    run: "pool_loop L mint target pairs (JObj [], Fin (- 1)) = Inr (r, Fin m)" and
    res: "if \<exists>e\<in>set pairs. pool_matches mint target e = Inr True \<and> - 1 < usd_value e
      then - 1 < m \<and> m = usd_value r \<and>
           (\<exists>pre post. pairs = pre @ r # post \<and> pool_matches mint target r = Inr True \<and>
              (\<forall>e\<in>set pre. pool_matches mint target e = Inr True \<longrightarrow> usd_value e < m) \<and>
              (\<forall>e\<in>set post. pool_matches mint target e = Inr True \<longrightarrow> usd_value e \<le> m))
      else r = JObj [] \<and> m = - 1" by blast
  have ret: "find_largest_pool_with_sol L mint pairs target = Inr r"
    using run by (simp add: find_largest_pool_with_sol_def)
  show ?thesis
  proof (cases "\<exists>e\<in>set pairs. pool_matches mint target e = Inr True \<and> - 1 < usd_value e")
    case True
    from res have d: "- 1 < m \<and> m = usd_value r \<and>
           (\<exists>pre post. pairs = pre @ r # post \<and> pool_matches mint target r = Inr True \<and>
              (\<forall>e\<in>set pre. pool_matches mint target e = Inr True \<longrightarrow> usd_value e < m) \<and>
              (\<forall>e\<in>set post. pool_matches mint target e = Inr True \<longrightarrow> usd_value e \<le> m))"
      unfolding if_P [OF True] .
    then have m: "m = usd_value r" and gt: "- 1 < m" by blast+
    from d obtain pre post where
      "pairs = pre @ r # post" "pool_matches mint target r = Inr True"
      "\<forall>e\<in>set pre. pool_matches mint target e = Inr True \<longrightarrow> usd_value e < m"
      "\<forall>e\<in>set post. pool_matches mint target e = Inr True \<longrightarrow> usd_value e \<le> m" by blast
    then have "\<exists>pre post. pairs = pre @ r # post \<and> pool_matches mint target r = Inr True \<and>
             - 1 < usd_value r \<and>
             (\<forall>e\<in>set pre. pool_matches mint target e = Inr True \<longrightarrow> usd_value e < usd_value r) \<and>
             (\<forall>e\<in>set post. pool_matches mint target e = Inr True \<longrightarrow> usd_value e \<le> usd_value r)"
      using gt unfolding m by blast
    then show ?thesis using ret unfolding if_P [OF True] by blast
  next
    case False
    from res have "r = JObj [] \<and> m = - 1" unfolding if_not_P [OF False] .
    then show ?thesis using ret unfolding if_not_P [OF False] by blast
  qed
qed

theorem find_largest_pool_first_maximal_witness:
  "(\<exists>r. find_largest_pool_with_sol ref_lib SOL
           [demo_pool ''raydium'' (JInt 10), demo_pool ''orca'' (JInt 50),
            demo_pool ''meteora'' (JInt 30)] USDC = Inr r \<and>
     (if \<exists>e\<in>set [demo_pool ''raydium'' (JInt 10), demo_pool ''orca'' (JInt 50),
                   demo_pool ''meteora'' (JInt 30)].
           pool_matches SOL USDC e = Inr True \<and> - 1 < usd_value e
      then \<exists>pre post.
             [demo_pool ''raydium'' (JInt 10), demo_pool ''orca'' (JInt 50),
              demo_pool ''meteora'' (JInt 30)] = pre @ r # post \<and>
             pool_matches SOL USDC r = Inr True \<and> - 1 < usd_value r \<and>
             (\<forall>e\<in>set pre. pool_matches SOL USDC e = Inr True \<longrightarrow> usd_value e < usd_value r) \<and>
             (\<forall>e\<in>set post. pool_matches SOL USDC e = Inr True \<longrightarrow> usd_value e \<le> usd_value r)
      else r = JObj [])) \<and>
   find_largest_pool_with_sol ref_lib SOL
     [demo_pool ''raydium'' (JInt 10), demo_pool ''orca'' (JInt 50),
      demo_pool ''meteora'' (JInt 30)] USDC = Inr (demo_pool ''orca'' (JInt 50))"
proof -
  let ?ps = "[demo_pool ''raydium'' (JInt 10), demo_pool ''orca'' (JInt 50),
              demo_pool ''meteora'' (JInt 30)]"
  have h1: "\<forall>e\<in>set ?ps. \<exists>m. pool_matches SOL USDC e = Inr m"
    by (auto simp: demo_pool_matches)
  have h2: "\<forall>e\<in>set ?ps. pool_matches SOL USDC e = Inr True \<longrightarrow> float_exact e"
    by (simp add: float_exact_def demo_pool_usd_field)
  have ev: "find_largest_pool_with_sol ref_lib SOL ?ps USDC = Inr (demo_pool ''orca'' (JInt 50))"
    by (simp add: find_largest_pool_with_sol_def demo_pool_matches float_exact_liquidity
        float_exact_def usd_value_def demo_pool_usd_field)
  from find_largest_pool_first_maximal [OF h1 h2, of ref_lib] ev show ?thesis by blast
qed

section \<open>Floating point in the selector\<close>

text \<open>
  C4. The claim has the selector compare \<^verbatim>\<open>liquidity.usd\<close> exactly. The code compares
  the values of \<^verbatim>\<open>float(...)\<close>: of two pairs with \<open>2 ^ 53\<close> and \<open>2 ^ 53 + 1\<close> US
  dollars of liquidity, both integers become the same double, the second is not greater
  than the running maximum, and the selector returns the first pair, where the exact
  comparison of the spec selects the second.
\<close>

theorem find_largest_pool_float_rounding:
  "find_largest_pool_with_sol ref_lib SOL
     [demo_pool ''raydium'' (JInt 9007199254740992), demo_pool ''orca'' (JInt 9007199254740993)]
     USDC = Inr (demo_pool ''raydium'' (JInt 9007199254740992)) \<and>
   spec_select_best_pool
     [demo_pool ''raydium'' (JInt 9007199254740992), demo_pool ''orca'' (JInt 9007199254740993)]
     USDC SOL = Some (demo_pool ''orca'' (JInt 9007199254740993))"
  using float_of_int_exact [of 9007199254740992]
  by (simp add: find_largest_pool_with_sol_def spec_select_best_pool_def demo_pool_matches
      demo_pool_liquidity demo_pool_usd_field usd_value_def float_of_int_rounds)

section \<open>Bulk fetches\<close>

lemma bulk_try_cases:
  "bulk_try L net a =
     (if a = [] \<or> \<not> is_solana_address L a then ([], Inl (InvalidSolanaAddress [JStr a]))
      else if status_code (net (dex_request a)) \<noteq> 200
      then ([dex_request a], Inl (InvalidTokens []))
      else ([dex_request a], Inr (json_body (net (dex_request a)))))"
  by (simp add: bulk_try_def validate_token_address_cases validate_response_def Let_def)

lemma call_api_bulk_loop_step:
  "call_api_bulk_loop L net (a # rest) responses sent =
     call_api_bulk_loop L net rest
       (AList.update a
          (if a = [] \<or> \<not> is_solana_address L a then error_marker L (InvalidSolanaAddress [JStr a])
           else if status_code (net (dex_request a)) \<noteq> 200 then error_marker L (InvalidTokens [])
           else json_body (net (dex_request a)))
          responses)
       (sent @ (if a = [] \<or> \<not> is_solana_address L a then [] else [dex_request a]))"
  by (simp add: bulk_try_cases)

lemma call_api_bulk_loop_result:
  "\<exists>responses'.
     call_api_bulk_loop L net addrs responses sent
       = (sent @ map dex_request (filter (\<lambda>a. a \<noteq> [] \<and> is_solana_address L a) addrs),
          Inr responses') \<and>
     (distinct addrs \<and> set addrs \<inter> set (map fst responses) = {} \<longrightarrow>
        map fst responses' = map fst responses @ addrs) \<and>
     (distinct (map fst responses) \<longrightarrow> distinct (map fst responses')) \<and>
     (\<forall>a. map_of responses' a =
        (if a \<in> set addrs
         then Some (if a = [] \<or> \<not> is_solana_address L a
                    then error_marker L (InvalidSolanaAddress [JStr a])
                    else if status_code (net (dex_request a)) \<noteq> 200
                    then error_marker L (InvalidTokens [])
                    else json_body (net (dex_request a)))
         else map_of responses a))"
proof (induction addrs arbitrary: responses sent)
  case Nil
  then show ?case by simp
next
  case (Cons x addrs)
  let ?v = "if x = [] \<or> \<not> is_solana_address L x then error_marker L (InvalidSolanaAddress [JStr x])
            else if status_code (net (dex_request x)) \<noteq> 200 then error_marker L (InvalidTokens [])
            else json_body (net (dex_request x))"
  let ?s = "sent @ (if x = [] \<or> \<not> is_solana_address L x then [] else [dex_request x])"
  from Cons.IH [of "AList.update x ?v responses" ?s] obtain responses' where
    run: "call_api_bulk_loop L net addrs (AList.update x ?v responses) ?s
            = (?s @ map dex_request (filter (\<lambda>a. a \<noteq> [] \<and> is_solana_address L a) addrs),
               Inr responses')" and
    keys: "distinct addrs \<and> set addrs \<inter> set (map fst (AList.update x ?v responses)) = {} \<longrightarrow>
             map fst responses' = map fst (AList.update x ?v responses) @ addrs" and
    dist: "distinct (map fst (AList.update x ?v responses)) \<longrightarrow> distinct (map fst responses')" and
    look: "\<forall>a. map_of responses' a =
        (if a \<in> set addrs
         then Some (if a = [] \<or> \<not> is_solana_address L a
                    then error_marker L (InvalidSolanaAddress [JStr a])
                    else if status_code (net (dex_request a)) \<noteq> 200
                    then error_marker L (InvalidTokens [])
                    else json_body (net (dex_request a)))
         else map_of (AList.update x ?v responses) a)" by blast
  have 1: "call_api_bulk_loop L net (x # addrs) responses sent
       = (sent @ map dex_request (filter (\<lambda>a. a \<noteq> [] \<and> is_solana_address L a) (x # addrs)),
          Inr responses')"
    unfolding call_api_bulk_loop_step run by simp
  have 2: "distinct (x # addrs) \<and> set (x # addrs) \<inter> set (map fst responses) = {} \<longrightarrow>
        map fst responses' = map fst responses @ x # addrs"
    using keys by (auto simp: update_keys simp del: set_map)
  have 3: "distinct (map fst responses) \<longrightarrow> distinct (map fst responses')"
    using dist by (simp add: distinct_update)
  have 4: "\<forall>a. map_of responses' a =
        (if a \<in> set (x # addrs)
         then Some (if a = [] \<or> \<not> is_solana_address L a
                    then error_marker L (InvalidSolanaAddress [JStr a])
                    else if status_code (net (dex_request a)) \<noteq> 200
                    then error_marker L (InvalidTokens [])
                    else json_body (net (dex_request a)))
         else map_of responses a)"
    using look by (simp add: update_conv')
  from 1 2 3 4 show ?case by blast
qed

text \<open>The error marker has no \<^verbatim>\<open>pairs\<close> key: the normalisation loop passes over it.\<close>

lemma token_step_marker: "token_step L a (error_marker L e) st = (st, None)"
  by (simp add: token_step_def token_try_def error_marker_def)

lemma token_step_skip:
  "py_contains ''pairs'' td = Inr False \<Longrightarrow> token_step L a td st = (st, None)"
  by (simp add: token_step_def token_try_def)

lemma set_venue_other:
  "set_venue address d p = Inr p' \<Longrightarrow> a \<noteq> address \<Longrightarrow> map_of p' a = map_of p a"
  by (auto simp: set_venue_def bind_err_eq_Inr update_conv' split: option.splits)

lemma set_symbol_other:
  "set_symbol address d s v p = Inr p' \<Longrightarrow> a \<noteq> address \<Longrightarrow> map_of p' a = map_of p a"
  by (auto simp: set_symbol_def bind_err_eq_Inr update_conv' split: option.splits)

lemma del_venue_other:
  "del_venue address d p = Inr p' \<Longrightarrow> a \<noteq> address \<Longrightarrow> map_of p' a = map_of p a"
  by (auto simp: del_venue_def bind_err_eq_Inr update_conv' split: option.splits if_splits)

lemma drop_venue_other:
  "drop_venue address st = (st', r) \<Longrightarrow> a \<noteq> address \<Longrightarrow> map_of (fst st') a = map_of (fst st) a"
  by (auto simp: drop_venue_def split: option.splits if_splits sum.splits)
     (metis del_venue_other)+

lemma price_pair_try_other:
  "price_pair_try L address pair st = (st', r) \<Longrightarrow> a \<noteq> address \<Longrightarrow>
     map_of (fst st') a = map_of (fst st) a"
  by (auto simp: price_pair_try_def split: sum.splits)
     (metis set_venue_other set_symbol_other)+

lemma price_pair_step_other:
  "price_pair_step L address pair st = (st', r) \<Longrightarrow> a \<noteq> address \<Longrightarrow>
     map_of (fst st') a = map_of (fst st) a"
  by (auto simp: price_pair_step_def split: prod.splits option.splits if_splits)
     (metis price_pair_try_other drop_venue_other fst_conv)+

lemma pairs_loop_other:
  assumes "\<And>pair st st' r. step pair st = (st', r) \<Longrightarrow> map_of (fst st') a = map_of (fst st) a"
  shows "pairs_loop step ps st = (st', r) \<Longrightarrow> map_of (fst st') a = map_of (fst st) a"
proof (induction ps arbitrary: st)
  case Nil
  then show ?case by simp
next
  case (Cons p ps)
  obtain st1 r1 where s: "step p st = (st1, r1)" by (cases "step p st")
  from assms [OF s] have k: "map_of (fst st1) a = map_of (fst st) a" .
  show ?case
  proof (cases r1)
    case None
    with Cons.prems s have "pairs_loop step ps st1 = (st', r)" by simp
    from Cons.IH [OF this] k show ?thesis by simp
  next
    case (Some e)
    with Cons.prems s have "st' = st1" by simp
    with k show ?thesis by simp
  qed
qed

lemma token_step_other:
  assumes "token_step L address td st = (st', r)" and "a \<noteq> address"
  shows "map_of (fst st') a = map_of (fst st) a"
proof -
  obtain st1 r1 where t: "token_try L address td st = (st1, r1)"
    by (cases "token_try L address td st")
  have k: "map_of (fst st1) a = map_of (fst st) a"
  proof (cases "py_contains ''pairs'' td")
    case (Inl e)
    with t show ?thesis by (simp add: token_try_def)
  next
    case (Inr c)
    show ?thesis
    proof (cases c)
      case False
      with Inr t show ?thesis by (simp add: token_try_def)
    next
      case True
      show ?thesis
      proof (cases "bind_err (py_getitem td ''pairs'') py_iter")
        case (Inl e)
        with Inr True t assms(2) show ?thesis
          by (auto simp: token_try_def update_conv')
      next
        case ps: (Inr ps)
        with Inr True t have
          "pairs_loop (price_pair_step L address) ps (AList.update address [] (fst st), snd st)
             = (st1, r1)" by (simp add: token_try_def)
        from pairs_loop_other [where step = "price_pair_step L address" and a = a, OF _ this]
          price_pair_step_other [OF _ assms(2)]
        have "map_of (fst st1) a = map_of (AList.update address [] (fst st)) a" by simp
        with assms(2) show ?thesis by (simp add: update_conv')
      qed
    qed
  qed
  from assms(1) t assms(2) have "map_of (fst st') a = map_of (fst st1) a"
    by (auto simp: token_step_def delete_conv' split: option.splits if_splits)
  with k show ?thesis by simp
qed

lemma tokens_loop_no_entry:
  "tokens_loop L items st = (st', r) \<Longrightarrow> map_of (fst st) a = None \<Longrightarrow>
     (\<forall>td. (a, td) \<in> set items \<longrightarrow> py_contains ''pairs'' td = Inr False) \<Longrightarrow>
     map_of (fst st') a = None"
proof (induction items arbitrary: st)
  case Nil
  then show ?case by simp
next
  case (Cons item items)
  obtain address td where item: "item = (address, td)" by (cases item)
  obtain st1 r1 where s: "token_step L address td st = (st1, r1)"
    by (cases "token_step L address td st")
  have k: "map_of (fst st1) a = None"
  proof (cases "a = address")
    case True
    with Cons.prems(3) item have "py_contains ''pairs'' td = Inr False" by simp
    from token_step_skip [OF this, of L address st] s Cons.prems(2) show ?thesis by simp
  next
    case False
    from token_step_other [OF s False] Cons.prems(2) show ?thesis by simp
  qed
  show ?case
  proof (cases r1)
    case None
    with Cons.prems(1) item s have "tokens_loop L items st1 = (st', r)" by simp
    from Cons.IH [OF this k] Cons.prems(3) show ?thesis by simp
  next
    case (Some e)
    with Cons.prems(1) item s have "st' = st1" by simp
    with k show ?thesis by simp
  qed
qed

lemma dex_request_url_neq: "req_url (dex_request USDC) \<noteq> req_url (dex_request SOL)"
  using SOL_neq_USDC by (simp add: dex_request_def)

lemma bulk_net_USDC: "bulk_net body (dex_request USDC) = \<lparr>status_code = 200, json_body = body\<rparr>"
  using dex_request_url_neq by (simp add: bulk_net_def)

lemma bulk_net_SOL: "bulk_net body (dex_request SOL) = \<lparr>status_code = 500, json_body = JNull\<rparr>"
  by (simp add: bulk_net_def)

lemma demo_pool_step:
  "map_of d a = Some vs \<Longrightarrow>
   price_pair_step L a (demo_pool dex (JFloat (Fin u))) (d, x) =
     ((AList.update a
         (AList.update (KStr dex) [(KStr ''USDC'', \<lparr>pi_value = DFin 1, pi_liquidity = DFin u\<rparr>)] vs) d,
       Some (JStr dex)), None)"
  by (simp add: price_pair_step_def price_pair_try_def demo_pool_def set_venue_def
      set_symbol_def update_conv')

lemma pairs_payload_step:
  "token_step L a pairs_payload (d, x) =
     ((AList.update a
         [(KStr ''raydium'', [(KStr ''USDC'', \<lparr>pi_value = DFin 1, pi_liquidity = DFin 1000\<rparr>)])]
         (AList.update a [] d),
       Some (JStr ''raydium'')), None)"
proof -
  have g: "bind_err (py_getitem pairs_payload ''pairs'') py_iter
             = Inr [demo_pool ''raydium'' (JFloat (Fin 1000))]"
    and c: "py_contains ''pairs'' pairs_payload = Inr True"
    by (simp_all add: pairs_payload_def)
  have m: "map_of (AList.update a [] d) a = Some []" by (simp add: update_conv')
  show ?thesis
    by (simp add: token_step_def token_try_def g c demo_pool_step [OF m])
qed

lemma bulk_prices_abort_eval:
  "fetch_prices_dex ref_lib (respond 200 pairs_payload) [USDC, ''not-an-address'']
     = ([], Inl (InvalidSolanaAddress [JStr ''not-an-address'']))"
  using USDC_valid USDC_nonempty not_an_address_invalid
  by (simp add: fetch_prices_dex_def validate_token_addresses_def validate_token_address_cases)

lemma bulk_prices_non200_eval:
  "fetch_prices_dex ref_lib (bulk_net pairs_payload) [USDC, SOL]
     = ([dex_request USDC, dex_request SOL],
        Inr [(USDC, [(KStr ''raydium'',
               [(KStr ''USDC'', \<lparr>pi_value = DFin 1, pi_liquidity = DFin 1000\<rparr>)])])])"
  using USDC_valid USDC_nonempty SOL_valid SOL_nonempty SOL_neq_USDC
  by (simp add: fetch_prices_dex_def validate_token_addresses_def validate_token_address_cases
      call_api_bulk_def bulk_try_cases bulk_net_USDC bulk_net_SOL
      pairs_payload_step token_step_marker)

lemma call_api_bulk_eval:
  "call_api_bulk ref_lib (bulk_net pairs_payload) [USDC, ''not-an-address'', SOL]
     = ([dex_request USDC, dex_request SOL],
        Inr [(USDC, pairs_payload),
             (''not-an-address'', JObj [(''error'', JStr ''not-an-address'')]),
             (SOL, JObj [(''error'', JStr '''')])])"
proof -
  have n: "USDC \<noteq> ''not-an-address''" "SOL \<noteq> ''not-an-address''"
    using USDC_valid SOL_valid not_an_address_invalid by auto
  show ?thesis
    using USDC_valid USDC_nonempty SOL_valid SOL_nonempty SOL_neq_USDC n not_an_address_invalid
    by (simp add: call_api_bulk_def bulk_try_cases bulk_net_USDC bulk_net_SOL
        error_marker_def)
       (simp add: ref_lib_def)
qed

text \<open>
  C2, as stated, fails for the bulk price operation \<^verbatim>\<open>fetch_prices_dex\<close>. With one
  ill-formed address in the list it raises and the whole batch is lost; with two valid
  addresses of which one is answered with status 500, it returns one entry, not two, and
  no error marker.
\<close>

theorem bulk_prices_counterexample:
  "is_solana_address ref_lib USDC \<and> \<not> is_solana_address ref_lib ''not-an-address'' \<and>
   fetch_prices_dex ref_lib (respond 200 pairs_payload) [USDC, ''not-an-address'']
     = ([], Inl (InvalidSolanaAddress [JStr ''not-an-address''])) \<and>
   is_solana_address ref_lib SOL \<and>
   status_code (bulk_net pairs_payload (dex_request SOL)) = 500 \<and>
   fetch_prices_dex ref_lib (bulk_net pairs_payload) [USDC, SOL]
     = ([dex_request USDC, dex_request SOL],
        Inr [(USDC, [(KStr ''raydium'',
               [(KStr ''USDC'', \<lparr>pi_value = DFin 1, pi_liquidity = DFin 1000\<rparr>)])])])"
  using USDC_valid SOL_valid not_an_address_invalid bulk_prices_abort_eval
    bulk_prices_non200_eval
  by (simp add: bulk_net_SOL)

text \<open>
  C2, amended. Over a non-empty list of distinct addresses the per-address fetch
  \<^verbatim>\<open>_call_api_bulk\<close> never aborts: it requests the well-formed addresses only and returns
  one entry per address, in order, which is the error marker for an address that is
  ill-formed or answered with a status other than 200, and the response body for every
  other address. The bulk price operation \<^verbatim>\<open>fetch_prices_dex\<close> validates the whole list
  first: one ill-formed address makes it raise \<^verbatim>\<open>InvalidSolanaAddress\<close> before any
  request. When all addresses are well-formed, its loop passes over an error marker
  without raising, and an address answered with a status other than 200 has no entry
  in the mapping it returns.
\<close>

theorem bulk_fetch_entries:
  assumes "token_addresses \<noteq> []"
  shows "(distinct token_addresses \<longrightarrow>
           (\<exists>responses.
              call_api_bulk L net token_addresses
                = (map dex_request (filter (\<lambda>a. a \<noteq> [] \<and> is_solana_address L a) token_addresses),
                   Inr responses) \<and>
              map fst responses = token_addresses \<and>
              (\<forall>a\<in>set token_addresses.
                 map_of responses a =
                   Some (if a = [] \<or> \<not> is_solana_address L a
                         then error_marker L (InvalidSolanaAddress [JStr a])
                         else if status_code (net (dex_request a)) \<noteq> 200
                         then error_marker L (InvalidTokens [])
                         else json_body (net (dex_request a)))))) \<and>
         ((\<exists>a\<in>set token_addresses. a = [] \<or> \<not> is_solana_address L a) \<longrightarrow>
           (\<exists>b\<in>set token_addresses.
              fetch_prices_dex L net token_addresses = ([], Inl (InvalidSolanaAddress [JStr b])))) \<and>
         (\<forall>a e st. token_step L a (error_marker L e) st = (st, None)) \<and>
         (\<forall>a\<in>set token_addresses. \<forall>sent prices.
            status_code (net (dex_request a)) \<noteq> 200 \<and>
            fetch_prices_dex L net token_addresses = (sent, Inr prices) \<longrightarrow>
              map_of prices a = None)"
proof -
  let ?valid = "\<lambda>a. a \<noteq> [] \<and> is_solana_address L a"
  let ?slot = "\<lambda>a. if a = [] \<or> \<not> is_solana_address L a
                    then error_marker L (InvalidSolanaAddress [JStr a])
                    else if status_code (net (dex_request a)) \<noteq> 200
                    then error_marker L (InvalidTokens [])
                    else json_body (net (dex_request a))"
  let ?e = "[] :: (string \<times> json) list"
  from call_api_bulk_loop_result [of L net token_addresses ?e "[]"] obtain responses where
    run0: "call_api_bulk_loop L net token_addresses ?e []
            = ([] @ map dex_request (filter ?valid token_addresses), Inr responses)" and
    keys0: "distinct token_addresses \<and> set token_addresses \<inter> set (map fst ?e) = {} \<longrightarrow>
             map fst responses = map fst ?e @ token_addresses" and
    dist0: "distinct (map fst ?e) \<longrightarrow> distinct (map fst responses)" and
    look0: "\<forall>a. map_of responses a = (if a \<in> set token_addresses then Some (?slot a) else map_of ?e a)"
    by blast
  have run: "call_api_bulk_loop L net token_addresses [] []
            = (map dex_request (filter ?valid token_addresses), Inr responses)"
    using run0 by simp
  have keys: "distinct token_addresses \<longrightarrow> map fst responses = token_addresses"
    using keys0 by simp
  have dist: "distinct (map fst responses)" using dist0 by simp
  have look: "\<And>a. a \<in> set token_addresses \<Longrightarrow> map_of responses a = Some (?slot a)"
    using look0 by simp
  have bulk: "call_api_bulk L net token_addresses
                = (map dex_request (filter ?valid token_addresses), Inr responses)"
    using run assms by (simp add: call_api_bulk_def)
  have 1: "distinct token_addresses \<longrightarrow>
           (\<exists>responses.
              call_api_bulk L net token_addresses
                = (map dex_request (filter ?valid token_addresses), Inr responses) \<and>
              map fst responses = token_addresses \<and>
              (\<forall>a\<in>set token_addresses. map_of responses a = Some (?slot a)))"
    using bulk keys look by blast
  have 2: "(\<exists>a\<in>set token_addresses. a = [] \<or> \<not> is_solana_address L a) \<longrightarrow>
           (\<exists>b\<in>set token_addresses.
              fetch_prices_dex L net token_addresses = ([], Inl (InvalidSolanaAddress [JStr b])))"
  proof
    assume "\<exists>a\<in>set token_addresses. a = [] \<or> \<not> is_solana_address L a"
    then obtain a where a: "a \<in> set token_addresses" "validate_token_address L a \<noteq> Inr ()"
      by (auto simp: validate_token_address_cases)
    from validate_each_rejects [OF a] obtain b where
      "b \<in> set token_addresses" "validate_each L token_addresses = Inl (InvalidSolanaAddress [JStr b])"
      by blast
    then show "\<exists>b\<in>set token_addresses.
              fetch_prices_dex L net token_addresses = ([], Inl (InvalidSolanaAddress [JStr b]))"
      using assms by (auto simp: fetch_prices_dex_def validate_token_addresses_def)
  qed
  have 3: "\<forall>a e st. token_step L a (error_marker L e) st = (st, None)"
    by (simp add: token_step_marker)
  have 4: "\<forall>a\<in>set token_addresses. \<forall>sent prices.
            status_code (net (dex_request a)) \<noteq> 200 \<and>
            fetch_prices_dex L net token_addresses = (sent, Inr prices) \<longrightarrow>
              map_of prices a = None"
  proof (intro ballI allI impI)
    fix a sent prices
    assume a: "a \<in> set token_addresses"
      and h: "status_code (net (dex_request a)) \<noteq> 200 \<and>
              fetch_prices_dex L net token_addresses = (sent, Inr prices)"
    from h bulk obtain st where
      loop: "tokens_loop L responses ([], None) = (st, None)" and p: "prices = fst st"
      by (auto simp: fetch_prices_dex_def split: sum.splits prod.splits option.splits)
    note d = dist
    have "\<forall>td. (a, td) \<in> set responses \<longrightarrow> py_contains ''pairs'' td = Inr False"
    proof (intro allI impI)
      fix td
      assume "(a, td) \<in> set responses"
      with d have "map_of responses a = Some td" by simp
      with look [OF a] have "td = ?slot a" by simp
      with h show "py_contains ''pairs'' td = Inr False"
        by (simp add: error_marker_def)
    qed
    from tokens_loop_no_entry [OF loop _ this] p show "map_of prices a = None" by simp
  qed
  from 1 2 3 4 show ?thesis by blast
qed

theorem bulk_fetch_entries_witness:
  "call_api_bulk ref_lib (bulk_net pairs_payload) [USDC, ''not-an-address'', SOL]
     = ([dex_request USDC, dex_request SOL],
        Inr [(USDC, pairs_payload),
             (''not-an-address'', JObj [(''error'', JStr ''not-an-address'')]),
             (SOL, JObj [(''error'', JStr '''')])]) \<and>
   (\<exists>b\<in>set [USDC, ''not-an-address'', SOL].
      fetch_prices_dex ref_lib (bulk_net pairs_payload) [USDC, ''not-an-address'', SOL]
        = ([], Inl (InvalidSolanaAddress [JStr b]))) \<and>
   map_of [(USDC, [(KStr ''raydium'',
               [(KStr ''USDC'', \<lparr>pi_value = DFin 1, pi_liquidity = DFin 1000\<rparr>)])])] SOL = None"
proof -
  have ne: "[USDC, ''not-an-address'', SOL] \<noteq> []" and ne2: "[USDC, SOL] \<noteq> []" by simp_all
  have bad: "\<exists>a\<in>set [USDC, ''not-an-address'', SOL]. a = [] \<or> \<not> is_solana_address ref_lib a"
    using not_an_address_invalid by simp
  have s: "SOL \<in> set [USDC, SOL]" by simp
  have st: "status_code (bulk_net pairs_payload (dex_request SOL)) \<noteq> 200"
    by (simp add: bulk_net_SOL)
  from bulk_fetch_entries [OF ne, of ref_lib "bulk_net pairs_payload"] bad
  have 2: "\<exists>b\<in>set [USDC, ''not-an-address'', SOL].
      fetch_prices_dex ref_lib (bulk_net pairs_payload) [USDC, ''not-an-address'', SOL]
        = ([], Inl (InvalidSolanaAddress [JStr b]))" by blast
  from bulk_fetch_entries [OF ne2, of ref_lib "bulk_net pairs_payload"] s st
    bulk_prices_non200_eval
  have 3: "map_of [(USDC, [(KStr ''raydium'',
               [(KStr ''USDC'', \<lparr>pi_value = DFin 1, pi_liquidity = DFin 1000\<rparr>)])])] SOL = None"
    by blast
  from call_api_bulk_eval 2 3 show ?thesis by blast
qed

section \<open>Defaults of the price normalisation\<close>







text \<open>
  The handler of the inner \<^verbatim>\<open>try\<close> of \<^verbatim>\<open>fetch_prices_dex\<close> deletes the venue named by
  \<^verbatim>\<open>dex_id\<close>, which is assigned only after the two conversions: when a conversion fails,
  \<^verbatim>\<open>dex_id\<close> still names the venue of the pair before. After a well-formed pair of the
  venue \<open>raydium\<close>, a pair of the venue \<open>orca\<close> with a null \<^verbatim>\<open>priceUsd\<close> makes the
  handler delete the entry of \<open>raydium\<close>; as the first pair of the call it makes the
  operation raise \<^verbatim>\<open>UnboundLocalError\<close>.
\<close>

lemma failed_pair_drops_previous_venue:
  "fetch_prices_dex ref_lib
     (respond 200 (JObj [(''pairs'',
        JList [demo_pool ''raydium'' (JFloat (Fin 1000)),
               JObj [(''dexId'', JStr ''orca''), (''priceUsd'', JNull)]])])) [USDC]
     = ([dex_request USDC], Inr [(USDC, [])])"
  using USDC_valid USDC_nonempty
  by (simp add: fetch_prices_dex_def validate_token_addresses_def validate_token_address_cases
      call_api_bulk_def bulk_try_cases respond_def token_step_def token_try_def
      price_pair_step_def price_pair_try_def set_venue_def set_symbol_def demo_pool_def
      drop_venue_def del_venue_def)

lemma failed_first_pair_raises:
  "fetch_prices_dex ref_lib
     (respond 200 (JObj [(''pairs'',
        JList [JObj [(''dexId'', JStr ''orca''), (''priceUsd'', JNull)]])])) [USDC]
     = ([dex_request USDC], Inl UnboundLocalError)"
  using USDC_valid USDC_nonempty
  by (simp add: fetch_prices_dex_def validate_token_addresses_def validate_token_address_cases
      call_api_bulk_def bulk_try_cases respond_def token_step_def token_try_def
      price_pair_step_def price_pair_try_def drop_venue_def)

end
